theory Spec2Isabelle
  imports Complex_Main
begin

section \<open>Data model\<close>

text \<open>
  The notebook \<^verbatim>\<open>3dReconstruction.ipynb\<close> works on NumPy arrays of fixed small shapes.
  A 2D image coordinate is a pair, a 3D point a triple, a homogeneous point a 4-tuple;
  an array of \<open>N\<close> points is the list of its points, whether NumPy stores it as
  \<open>(N, 2)\<close> or, transposed, as \<open>(2, N)\<close>: \<^verbatim>\<open>.T\<close> does not change the list.
  The intrinsics \<open>K\<close> and a rotation are 3x3 matrices, a pose is a 3x4 matrix, both
  given by their rows. A floating-point number is represented by the real number it
  denotes. Outside the exporter the arithmetic is that of the reals: rounding is not
  part of the model there. Python exceptions are values of type \<open>error\<close>.
\<close>

type_synonym point2 = "real \<times> real"
type_synonym vec3 = "real \<times> real \<times> real"
type_synonym 'a vec4 = "'a \<times> 'a \<times> 'a \<times> 'a"
type_synonym mat33 = "vec3 \<times> vec3 \<times> vec3"
type_synonym mat34 = "real vec4 \<times> real vec4 \<times> real vec4"
type_synonym colour = "int \<times> int \<times> int"
type_synonym image = "colour list list"

datatype error = TypeError | IndexError | ValueError | ZeroDivisionError | CvError

text \<open>Sequencing of statements that may raise: the first exception ends the run.\<close>

definition bindE :: "error + 'a \<Rightarrow> ('a \<Rightarrow> error + 'b) \<Rightarrow> error + 'b" where
  "bindE m f = (case m of Inl e \<Rightarrow> Inl e | Inr x \<Rightarrow> f x)"

text \<open>
  What the notebook prints. Lines that interpolate numbers keep the numbers, since the
  rendering of a float is not modelled.
\<close>

datatype printed =
    Line string
  | ShapeNewArray "nat \<times> nat" "nat \<times> nat"
  | ReprojectionError real

section \<open>Correspondence tracking: \<^verbatim>\<open>common_points\<close>\<close>

text \<open>
  \<^verbatim>\<open>image_points_2 == image_points_1[i, :]\<close> broadcasts the row against every row of
  the array and compares element by element: the result is a boolean array of the same
  shape \<open>(M, 2)\<close>.
\<close>

definition eq_broadcast :: "point2 list \<Rightarrow> point2 \<Rightarrow> (bool \<times> bool) list" where
  "eq_broadcast arr p = map (\<lambda>q. (fst q = fst p, snd q = snd p)) arr"

text \<open>
  \<^verbatim>\<open>np.where(m)\<close> on a two-dimensional boolean array returns the row indices and the
  column indices of its true entries, in row-major order; \<^verbatim>\<open>a[0]\<close> is the array of
  row indices. A row with two true entries is listed twice.
\<close>

definition np_where_rows :: "(bool \<times> bool) list \<Rightarrow> nat list" where
  "np_where_rows m =
     concat (map (\<lambda>(r, b). (if fst b then [r] else []) @ (if snd b then [r] else []))
                 (List.enumerate 0 m))"

text \<open>
  One pass of the loop \<^verbatim>\<open>for i in range(image_points_1.shape[0])\<close>, on the pair of
  lists \<^verbatim>\<open>(cm_points_1, cm_points_2)\<close>.
\<close>

definition common_step ::
  "point2 list \<Rightarrow> point2 list \<Rightarrow> nat list \<times> nat list \<Rightarrow> nat \<Rightarrow> nat list \<times> nat list" where
  "common_step image_points_1 image_points_2 cm i =
     (let a = np_where_rows (eq_broadcast image_points_2 (image_points_1 ! i))
      in if a \<noteq> [] then (fst cm @ [i], snd cm @ [hd a]) else cm)"

definition common_indices :: "point2 list \<Rightarrow> point2 list \<Rightarrow> nat list \<times> nat list" where
  "common_indices image_points_1 image_points_2 =
     foldl (common_step image_points_1 image_points_2) ([], [])
           [0..<length image_points_1]"

text \<open>
  Two points share a coordinate when their first or their second entries agree; this is
  what a true entry of the element-wise comparison means. The first row of an array that
  shares a coordinate with a probe is found by skipping the rows that do not.
\<close>

definition shares_coordinate :: "point2 \<Rightarrow> point2 \<Rightarrow> bool" where
  "shares_coordinate q p = (fst q = fst p \<or> snd q = snd p)"

definition first_sharing :: "point2 list \<Rightarrow> point2 \<Rightarrow> nat" where
  "first_sharing arr p = length (takeWhile (\<lambda>q. \<not> shares_coordinate q p) arr)"

text \<open>The row indices of \<^verbatim>\<open>np.where\<close> when the rows are counted from \<open>n\<close>.\<close>

definition where_from :: "nat \<Rightarrow> point2 list \<Rightarrow> point2 \<Rightarrow> nat list" where
  "where_from n arr p =
     concat (map (\<lambda>(r, b). (if fst b then [r] else []) @ (if snd b then [r] else []))
                 (List.enumerate n (eq_broadcast arr p)))"

text \<open>
  \<^verbatim>\<open>m = np.ma.array(arr, mask=False); m.mask[idx] = True; m.compressed().reshape(n/2, 2)\<close>:
  the rows of \<open>arr\<close> whose index is not in \<open>idx\<close>, in order. Setting the mask at
  an index past the last row raises \<^verbatim>\<open>IndexError\<close>.
\<close>

definition compress_rows :: "'a list \<Rightarrow> nat list \<Rightarrow> error + 'a list" where
  "compress_rows arr idx =
     (if list_all (\<lambda>j. j < length arr) idx
      then Inr (map (nth arr) (filter (\<lambda>r. r \<notin> set idx) [0..<length arr]))
      else Inl IndexError)"

text \<open>
  The function returns the two index lists and the two compressed arrays, after
  printing the shapes of the latter.
\<close>

definition common_points ::
  "point2 list \<Rightarrow> point2 list \<Rightarrow> point2 list \<Rightarrow>
   printed list \<times> (error + (nat list \<times> nat list \<times> point2 list \<times> point2 list))" where
  "common_points image_points_1 image_points_2 image_points_3 =
     (let cm = common_indices image_points_1 image_points_2;
          cm_points_1 = fst cm;
          cm_points_2 = snd cm
      in case compress_rows image_points_2 cm_points_2 of
           Inl e \<Rightarrow> ([], Inl e)
         | Inr mask_array_1 \<Rightarrow>
            (case compress_rows image_points_3 cm_points_2 of
               Inl e \<Rightarrow> ([], Inl e)
             | Inr mask_array_2 \<Rightarrow>
                ([ShapeNewArray (length mask_array_1, 2) (length mask_array_2, 2)],
                 Inr (cm_points_1, cm_points_2, mask_array_1, mask_array_2))))"

section \<open>Triangulation: \<^verbatim>\<open>triangulation\<close>\<close>

text \<open>
  OpenCV is not part of the repository: each of its functions that the notebook calls is
  a parameter of the model, returning either a \<^verbatim>\<open>cv2.error\<close> or its result.

  The normalisation \<^verbatim>\<open>pt_cloud / pt_cloud[3]\<close> divides every column of the 4xN array
  by its own fourth entry. It is stated over any number type with a division, so that
  it can be read both over \<open>real\<close> and over the floating-point values below, where a
  division by zero yields an infinity or a NaN as IEEE 754 says. In \<open>f64\<close> the finite
  values are reals (no rounding, no overflow) and zero stands for \<open>+0.0\<close>.
\<close>

datatype f64 = Finite real | PosInf | NegInf | NaN

definition fdiv :: "f64 \<Rightarrow> f64 \<Rightarrow> f64" where
  "fdiv a b =
     (case (a, b) of
        (NaN, _) \<Rightarrow> NaN
      | (_, NaN) \<Rightarrow> NaN
      | (Finite x, Finite y) \<Rightarrow>
          (if y = 0 then (if x = 0 then NaN else if 0 < x then PosInf else NegInf)
           else Finite (x / y))
      | (Finite x, _) \<Rightarrow> Finite 0
      | (PosInf, Finite y) \<Rightarrow> (if 0 \<le> y then PosInf else NegInf)
      | (NegInf, Finite y) \<Rightarrow> (if 0 \<le> y then NegInf else PosInf)
      | (_, _) \<Rightarrow> NaN)"

instantiation f64 :: inverse
begin

definition divide_f64 :: "f64 \<Rightarrow> f64 \<Rightarrow> f64" where
  "divide_f64 = fdiv"

definition inverse_f64 :: "f64 \<Rightarrow> f64" where
  "inverse_f64 a = fdiv (Finite 1) a"

instance ..

end

fun is_finite :: "f64 \<Rightarrow> bool" where
  "is_finite (Finite x) = True"
| "is_finite PosInf = False"
| "is_finite NegInf = False"
| "is_finite NaN = False"

definition normalise_column :: "('a::inverse) vec4 \<Rightarrow> 'a vec4" where
  "normalise_column p = (case p of (x, y, z, w) \<Rightarrow> (x / w, y / w, z / w, w / w))"

text \<open>
  The parameters keep the names of the source, where the first two are passed on as the
  projection matrices and the last two, transposed, as the point arrays:
  \<^verbatim>\<open>cv.triangulatePoints(point_2d_1, point_2d_2, projection_matrix_1.T, projection_matrix_2.T)\<close>.
\<close>

definition triangulation ::
  "('m \<Rightarrow> 'm \<Rightarrow> 'p list \<Rightarrow> 'p list \<Rightarrow> error + ('a::inverse) vec4 list) \<Rightarrow>
   'm \<Rightarrow> 'm \<Rightarrow> 'p list \<Rightarrow> 'p list \<Rightarrow> error + ('p list \<times> 'p list \<times> 'a vec4 list)" where
  "triangulation triangulatePoints point_2d_1 point_2d_2 projection_matrix_1 projection_matrix_2 =
     bindE (triangulatePoints point_2d_1 point_2d_2 projection_matrix_1 projection_matrix_2)
       (\<lambda>pt_cloud.
          Inr (projection_matrix_1, projection_matrix_2, map normalise_column pt_cloud))"

section \<open>Pose registration: \<^verbatim>\<open>PnP\<close>\<close>

text \<open>
  \<^verbatim>\<open>arr[idx]\<close> for an integer index array \<open>idx\<close>: the rows at these indices, or
  \<^verbatim>\<open>IndexError\<close> when one of them is out of range.
\<close>

definition take_rows :: "'a list \<Rightarrow> nat list \<Rightarrow> error + 'a list" where
  "take_rows arr idx =
     (if list_all (\<lambda>j. j < length arr) idx then Inr (map (nth arr) idx) else Inl IndexError)"

text \<open>
  \<^verbatim>\<open>cv.solvePnPRansac\<close> returns its success flag, the rotation vector, the translation
  vector and the inlier indices, which are \<^verbatim>\<open>None\<close> when it found no consensus. The
  notebook discards the flag. \<^verbatim>\<open>cv.Rodrigues\<close> turns the rotation vector into a matrix.
\<close>

definition PnP ::
  "(vec3 list \<Rightarrow> point2 list \<Rightarrow> mat33 \<Rightarrow> error + (bool \<times> vec3 \<times> vec3 \<times> nat list option)) \<Rightarrow>
   (vec3 \<Rightarrow> mat33) \<Rightarrow>
   vec3 list \<Rightarrow> point2 list \<Rightarrow> mat33 \<Rightarrow> 'aux list \<Rightarrow>
   error + (mat33 \<times> vec3 \<times> point2 list \<times> vec3 list \<times> 'aux list)" where
  "PnP solvePnPRansac Rodrigues obj_point image_point K rot_vector =
     bindE (solvePnPRansac obj_point image_point K)
       (\<lambda>(retval, rot_vector_calc, tran_vector, inlier).
          let rot_matrix = Rodrigues rot_vector_calc
          in case inlier of
               None \<Rightarrow> Inr (rot_matrix, tran_vector, image_point, obj_point, rot_vector)
             | Some inl \<Rightarrow>
                 bindE (take_rows image_point inl) (\<lambda>image_point'.
                 bindE (take_rows obj_point inl) (\<lambda>obj_point'.
                 bindE (take_rows rot_vector inl) (\<lambda>rot_vector'.
                   Inr (rot_matrix, tran_vector, image_point', obj_point', rot_vector')))))"

section \<open>Reprojection error: \<^verbatim>\<open>reprojection_error\<close>\<close>

text \<open>The slices \<^verbatim>\<open>transform_matrix[:3, :3]\<close> and \<^verbatim>\<open>transform_matrix[:3, 3]\<close>.\<close>

definition rot_part :: "mat34 \<Rightarrow> mat33" where
  "rot_part m =
     (case m of ((a, b, c, d), (e, f, g, h), (i, j, k, l)) \<Rightarrow> ((a, b, c), (e, f, g), (i, j, k)))"

definition last_column :: "mat34 \<Rightarrow> vec3" where
  "last_column m = (case m of ((a, b, c, d), (e, f, g, h), (i, j, k, l)) \<Rightarrow> (d, h, l))"

text \<open>
  \<^verbatim>\<open>cv.norm(a, b, cv.NORM_L2)\<close> is the L2 norm of the difference of the two arrays
  taken as a whole: the square root of the sum of the squares of all its entries.
  Arrays of different sizes are refused.
\<close>

definition cv_norm_L2 :: "point2 list \<Rightarrow> point2 list \<Rightarrow> error + real" where
  "cv_norm_L2 a b =
     (if length a = length b
      then Inr (sqrt (\<Sum>(p, q)\<leftarrow>zip a b. (fst p - fst q)\<^sup>2 + (snd p - snd q)\<^sup>2))
      else Inl CvError)"

text \<open>
  The object points are an \<open>(N, 3)\<close> array of Cartesian points or, with
  \<^verbatim>\<open>homogenity == 1\<close>, a \<open>(4, N)\<close> array of homogeneous points, which is transposed and
  converted first. An array of the other shape is refused by OpenCV. The result is the
  pair of the error value and the (possibly converted) object points. A Python float
  divided by the integer zero raises \<^verbatim>\<open>ZeroDivisionError\<close>.
\<close>

datatype obj_array = Cartesian "vec3 list" | Homogeneous "real vec4 list"

definition reprojection_error ::
  "(mat33 \<Rightarrow> vec3) \<Rightarrow> (real vec4 list \<Rightarrow> error + vec3 list) \<Rightarrow>
   (vec3 list \<Rightarrow> vec3 \<Rightarrow> vec3 \<Rightarrow> mat33 \<Rightarrow> error + point2 list) \<Rightarrow>
   obj_array \<Rightarrow> point2 list \<Rightarrow> mat34 \<Rightarrow> mat33 \<Rightarrow> int \<Rightarrow> error + (real \<times> vec3 list)" where
  "reprojection_error Rodrigues convertPointsFromHomogeneous projectPoints
       obj_points image_points transform_matrix K homogenity =
     (let rot_matrix = rot_part transform_matrix;
          tran_vector = last_column transform_matrix;
          rot_vector = Rodrigues rot_matrix
      in bindE (if homogenity = 1
                then (case obj_points of
                        Homogeneous h \<Rightarrow> convertPointsFromHomogeneous h
                      | Cartesian c \<Rightarrow> Inl CvError)
                else (case obj_points of
                        Cartesian c \<Rightarrow> Inr c
                      | Homogeneous h \<Rightarrow> Inl CvError))
           (\<lambda>obj_points'.
         bindE (projectPoints obj_points' rot_vector tran_vector K) (\<lambda>image_points_calc.
         bindE (cv_norm_L2 image_points_calc image_points) (\<lambda>total_error.
           if length image_points_calc = 0 then Inl ZeroDivisionError
           else Inr (total_error / real (length image_points_calc), obj_points')))))"

section \<open>Feature matching: \<^verbatim>\<open>get_matches\<close>\<close>

text \<open>
  An image is a NumPy array of rows of pixels, each pixel three unsigned bytes.
  \<^verbatim>\<open>cv.imread\<close> returns \<^verbatim>\<open>None\<close> for a file it cannot decode. A keypoint is
  represented by its coordinates \<^verbatim>\<open>pt\<close>; the descriptors are opaque.
\<close>

record DMatch =
  queryIdx :: nat
  trainIdx :: nat
  distance :: real

text \<open>\<^verbatim>\<open>int(x)\<close> of a float rounds towards zero.\<close>

definition py_int :: "real \<Rightarrow> int" where
  "py_int x = (if 0 \<le> x then \<lfloor>x\<rfloor> else \<lceil>x\<rceil>)"

text \<open>Indexing one axis of an array by an integer: a negative index counts from the end.\<close>

definition np_getitem :: "'a list \<Rightarrow> int \<Rightarrow> error + 'a" where
  "np_getitem xs i =
     (if 0 \<le> i \<and> i < int (length xs) then Inr (xs ! nat i)
      else if i < 0 \<and> - int (length xs) \<le> i then Inr (xs ! nat (int (length xs) + i))
      else Inl IndexError)"

definition pixel :: "image \<Rightarrow> int \<Rightarrow> int \<Rightarrow> error + colour" where
  "pixel img r c = bindE (np_getitem img r) (\<lambda>row. np_getitem row c)"

text \<open>Indexing a Python sequence by a non-negative integer.\<close>

definition item :: "'a list \<Rightarrow> nat \<Rightarrow> error + 'a" where
  "item xs i = (if i < length xs then Inr (xs ! i) else Inl IndexError)"

text \<open>The tuple pattern \<^verbatim>\<open>(m, n)\<close> of both loops takes exactly two neighbours.\<close>

fun unpack_pair :: "'a list \<Rightarrow> error + ('a \<times> 'a)" where
  "unpack_pair [m, n] = Inr (m, n)"
| "unpack_pair _ = Inl ValueError"

text \<open>Loops whose body may raise: over the elements, and over an accumulator.\<close>

fun mapE :: "('a \<Rightarrow> error + 'b) \<Rightarrow> 'a list \<Rightarrow> error + 'b list" where
  "mapE f [] = Inr []"
| "mapE f (x # xs) =
     (case f x of
        Inl e \<Rightarrow> Inl e
      | Inr y \<Rightarrow> (case mapE f xs of Inl e \<Rightarrow> Inl e | Inr ys \<Rightarrow> Inr (y # ys)))"

fun foldE :: "('b \<Rightarrow> 'a \<Rightarrow> error + 'b) \<Rightarrow> 'a list \<Rightarrow> 'b \<Rightarrow> error + 'b" where
  "foldE f [] acc = Inr acc"
| "foldE f (x # xs) acc = (case f acc x of Inl e \<Rightarrow> Inl e | Inr acc' \<Rightarrow> foldE f xs acc')"

text \<open>Lowe's ratio test fills \<^verbatim>\<open>matchesMask[j]\<close> with \<open>[1, 0]\<close> or leaves \<open>[0, 0]\<close>.\<close>

definition ratio_test :: "DMatch list \<Rightarrow> error + (nat \<times> nat)" where
  "ratio_test mn =
     bindE (unpack_pair mn)
       (\<lambda>(m, n). Inr (if distance m < 0.7 * distance n then (1, 0) else (0, 0)))"

text \<open>
  The second loop appends, for every match that passed, the two coordinates and the
  two sampled colours to the four result lists.
\<close>

definition collect_match ::
  "image \<Rightarrow> image \<Rightarrow> point2 list \<Rightarrow> point2 list \<Rightarrow>
   point2 list \<times> point2 list \<times> colour list \<times> colour list \<Rightarrow> DMatch list \<times> (nat \<times> nat) \<Rightarrow>
   error + (point2 list \<times> point2 list \<times> colour list \<times> colour list)" where
  "collect_match img1 img2 kp1 kp2 acc mm =
     bindE (unpack_pair (fst mm)) (\<lambda>(m, n).
       if fst (snd mm) = 1
       then bindE (item kp1 (queryIdx m)) (\<lambda>point_a.
            bindE (item kp2 (trainIdx m)) (\<lambda>point_b.
            bindE (pixel img1 (py_int (snd point_a)) (py_int (fst point_a))) (\<lambda>color_a.
            bindE (pixel img2 (py_int (snd point_b)) (py_int (fst point_b))) (\<lambda>color_b.
              case acc of (matched_points_a, matched_points_b, total_colors_a, total_colors_b) \<Rightarrow>
                Inr (matched_points_a @ [point_a], matched_points_b @ [point_b],
                     total_colors_a @ [color_a], total_colors_b @ [color_b])))))
       else Inr acc)"

text \<open>
  The function prints and returns \<^verbatim>\<open>None\<close> when an image is missing; otherwise it
  returns the four arrays.
\<close>

definition get_matches ::
  "(string \<Rightarrow> image option) \<Rightarrow> (image \<Rightarrow> point2 list \<times> 'des) \<Rightarrow>
   ('des \<Rightarrow> 'des \<Rightarrow> error + DMatch list list) \<Rightarrow> string \<Rightarrow> string \<Rightarrow>
   printed list \<times> (error + (point2 list \<times> point2 list \<times> colour list \<times> colour list) option)" where
  "get_matches imread detectAndCompute knnMatch path1 path2 =
     (let img1 = imread path1;
          img2 = imread path2
      in if img1 = None \<or> img2 = None
         then ([Line ''Error reading images''], Inr None)
         else
          (let (kp1, des1) = detectAndCompute (the img1);
               (kp2, des2) = detectAndCompute (the img2)
           in ([],
               bindE (knnMatch des1 des2) (\<lambda>matches.
               bindE (mapE ratio_test matches) (\<lambda>matchesMask.
               bindE (foldE (collect_match (the img1) (the img2) kp1 kp2)
                            (zip matches matchesMask) ([], [], [], []))
                 (\<lambda>r. Inr (Some r)))))))"

text \<open>
  Every caller unpacks the result into four variables, which raises \<^verbatim>\<open>TypeError\<close>
  on \<^verbatim>\<open>None\<close>.
\<close>

definition unpack_matches :: "'a option \<Rightarrow> error + 'a" where
  "unpack_matches r = (case r of None \<Rightarrow> Inl TypeError | Some v \<Rightarrow> Inr v)"

text \<open>Four arrays are parallel when they have the same number of rows.\<close>

definition parallel4 :: "'a list \<times> 'b list \<times> 'c list \<times> 'd list \<Rightarrow> bool" where
  "parallel4 r =
     (case r of (a, b, c, d) \<Rightarrow>
        length b = length a \<and> length c = length a \<and> length d = length a)"

section \<open>Two-view initialisation\<close>

definition transform_matrix_0 :: mat34 where
  "transform_matrix_0 = ((1, 0, 0, 0), (0, 1, 0, 0), (0, 0, 1, 0))"

definition dot3 :: "vec3 \<Rightarrow> vec3 \<Rightarrow> real" where
  "dot3 u v = (case (u, v) of ((a, b, c), (x, y, z)) \<Rightarrow> a * x + b * y + c * z)"

text \<open>\<^verbatim>\<open>np.matmul\<close> of a 3x3 matrix with a vector, a 3x3 matrix and a 3x4 matrix.\<close>

definition matvec :: "mat33 \<Rightarrow> vec3 \<Rightarrow> vec3" where
  "matvec m v = (case m of (r1, r2, r3) \<Rightarrow> (dot3 r1 v, dot3 r2 v, dot3 r3 v))"



text \<open>\<^verbatim>\<open>np.hstack((m, v))\<close> of a 3x3 matrix and a 3x1 column.\<close>

definition hstack_34 :: "mat33 \<Rightarrow> vec3 \<Rightarrow> mat34" where
  "hstack_34 m v =
     (case (m, v) of
        (((a, b, c), (d, e, f), (g, h, i)), (x, y, z)) \<Rightarrow>
          ((a, b, c, x), (d, e, f, y), (g, h, i, z)))"

definition columns34 :: "mat34 \<Rightarrow> vec3 \<times> vec3 \<times> vec3 \<times> vec3" where
  "columns34 m =
     (case m of ((a, b, c, d), (e, f, g, h), (i, j, k, l)) \<Rightarrow>
        ((a, e, i), (b, f, j), (c, g, k), (d, h, l)))"

definition matmul_34 :: "mat33 \<Rightarrow> mat34 \<Rightarrow> mat34" where
  "matmul_34 m n =
     (case (m, columns34 n) of
        ((r1, r2, r3), (c1, c2, c3, c4)) \<Rightarrow>
          ((dot3 r1 c1, dot3 r1 c2, dot3 r1 c3, dot3 r1 c4),
           (dot3 r2 c1, dot3 r2 c2, dot3 r2 c3, dot3 r2 c4),
           (dot3 r3 c1, dot3 r3 c2, dot3 r3 c3, dot3 r3 c4)))"



definition add3 :: "vec3 \<Rightarrow> vec3 \<Rightarrow> vec3" where
  "add3 u v = (case (u, v) of ((a, b, c), (x, y, z)) \<Rightarrow> (a + x, b + y, c + z))"




section \<open>The control loop\<close>

text \<open>
  Statements that print are sequenced together with what they have printed so far; an
  exception keeps the lines printed before it.
\<close>

definition bindP ::
  "printed list \<times> (error + 'a) \<Rightarrow> ('a \<Rightarrow> printed list \<times> (error + 'b)) \<Rightarrow>
   printed list \<times> (error + 'b)" where
  "bindP m f =
     (case snd m of
        Inl e \<Rightarrow> (fst m, Inl e)
      | Inr x \<Rightarrow> (fst m @ fst (f x), snd (f x)))"

definition silent :: "error + 'a \<Rightarrow> printed list \<times> (error + 'a)" where
  "silent r = ([], r)"

definition print_line :: "printed \<Rightarrow> printed list \<times> (error + unit)" where
  "print_line l = ([l], Inr ())"

text \<open>The OpenCV functions that the loop calls.\<close>

record 'des opencv =
  cv_imread :: "string \<Rightarrow> image option"
  cv_detectAndCompute :: "image \<Rightarrow> point2 list \<times> 'des"
  cv_knnMatch :: "'des \<Rightarrow> 'des \<Rightarrow> error + DMatch list list"
  cv_triangulatePoints ::
    "mat34 \<Rightarrow> mat34 \<Rightarrow> point2 list \<Rightarrow> point2 list \<Rightarrow> error + real vec4 list"
  cv_convertPointsFromHomogeneous :: "real vec4 list \<Rightarrow> error + vec3 list"
  cv_solvePnPRansac ::
    "vec3 list \<Rightarrow> point2 list \<Rightarrow> mat33 \<Rightarrow> error + (bool \<times> vec3 \<times> vec3 \<times> nat list option)"
  cv_Rodrigues_vector :: "vec3 \<Rightarrow> mat33"
  cv_Rodrigues_matrix :: "mat33 \<Rightarrow> vec3"
  cv_projectPoints :: "vec3 list \<Rightarrow> vec3 \<Rightarrow> vec3 \<Rightarrow> mat33 \<Rightarrow> error + point2 list"

text \<open>
  \<^verbatim>\<open>arr[np.array(idx)]\<close> for a Python list \<open>idx\<close> of integers: the empty list becomes
  an array of floats, which NumPy refuses as an index.
\<close>

definition index_array :: "'a list \<Rightarrow> nat list \<Rightarrow> error + 'a list" where
  "index_array arr idx = (if idx = [] then Inl IndexError else take_rows arr idx)"

text \<open>
  The statements of one pass of the loop up to the line that prints the reprojection
  error. They read the two previous poses and yield \<^verbatim>\<open>pose_2\<close>, the new points,
  \<^verbatim>\<open>cm_mask_1\<close> and the image read at the start of the pass (\<^verbatim>\<open>image\<close> in the source).
\<close>

definition frame_step ::
  "'des opencv \<Rightarrow> string list \<Rightarrow> mat33 \<Rightarrow> mat34 \<Rightarrow> mat34 \<Rightarrow> nat \<Rightarrow>
   printed list \<times> (error + (mat34 \<times> vec3 list \<times> point2 list \<times> image option))" where
  "frame_step cv image_paths K pose_0 pose_1 i =
     bindP (silent (item image_paths (i + 1))) (\<lambda>path_1.
     let img = cv_imread cv path_1 in
     bindP (silent (item image_paths i)) (\<lambda>path_0.
     bindP (get_matches (cv_imread cv) (cv_detectAndCompute cv) (cv_knnMatch cv) path_0 path_1)
       (\<lambda>r.
     bindP (silent (unpack_matches r)) (\<lambda>(feature_0, feature_1, _, _).
     bindP (silent (triangulation (cv_triangulatePoints cv) pose_0 pose_1 feature_0 feature_1))
       (\<lambda>(feature_0, feature_1, points_3d).
     bindP (silent (item image_paths (i + 2))) (\<lambda>path_2.
     bindP (get_matches (cv_imread cv) (cv_detectAndCompute cv) (cv_knnMatch cv) path_1 path_2)
       (\<lambda>r.
     bindP (silent (unpack_matches r)) (\<lambda>(features_cur, features_2, _, _).
     bindP (silent (cv_convertPointsFromHomogeneous cv points_3d)) (\<lambda>points_3d.
     bindP (common_points feature_1 features_cur features_2)
       (\<lambda>(cm_points_0, cm_points_1, cm_mask_0, cm_mask_1).
     bindP (silent (index_array features_2 cm_points_1)) (\<lambda>cm_points_2.
     bindP (silent (index_array features_cur cm_points_1)) (\<lambda>cm_points_cur.
     bindP (silent (index_array points_3d cm_points_0)) (\<lambda>obj_point.
     bindP (silent (PnP (cv_solvePnPRansac cv) (cv_Rodrigues_vector cv)
                        obj_point cm_points_2 K cm_points_cur))
       (\<lambda>(rot_matrix, tran_matrix, cm_points_2, points_3d, cm_points_cur).
     let transform_matrix_1 = hstack_34 rot_matrix tran_matrix;
         pose_2 = matmul_34 K transform_matrix_1 in
     bindP (silent (reprojection_error (cv_Rodrigues_matrix cv)
                      (cv_convertPointsFromHomogeneous cv) (cv_projectPoints cv)
                      (Cartesian points_3d) cm_points_2 transform_matrix_1 K 0))
       (\<lambda>(err, points_3d).
     bindP (silent (triangulation (cv_triangulatePoints cv) pose_1 pose_2 cm_mask_0 cm_mask_1))
       (\<lambda>(cm_mask_0, cm_mask_1, points_3d).
     bindP (silent (reprojection_error (cv_Rodrigues_matrix cv)
                      (cv_convertPointsFromHomogeneous cv) (cv_projectPoints cv)
                      (Homogeneous points_3d) cm_mask_1 transform_matrix_1 K 1))
       (\<lambda>(err, points_3d).
     bindP (print_line (ReprojectionError err)) (\<lambda>_.
       silent (Inr (pose_2, points_3d, cm_mask_1, img))))))))))))))))))))"

text \<open>
  \<^verbatim>\<open>np.array([image[l[1], l[0]] for l in points_left.T])\<close>, where \<^verbatim>\<open>points_left\<close> is
  \<^verbatim>\<open>cm_mask_1\<close> cast to 32-bit integers. Subscripting \<^verbatim>\<open>None\<close> raises \<^verbatim>\<open>TypeError\<close>.
\<close>

definition color_vector :: "image option \<Rightarrow> point2 list \<Rightarrow> error + colour list" where
  "color_vector img cm_mask_1 =
     mapE (\<lambda>l. case img of
                  None \<Rightarrow> Inl TypeError
                | Some pixels \<Rightarrow> pixel pixels (py_int (snd l)) (py_int (fst l)))
          cm_mask_1"

definition ravel_34 :: "mat34 \<Rightarrow> real list" where
  "ravel_34 m =
     (case m of ((a, b, c, d), (e, f, g, h), (i, j, k, l)) \<Rightarrow> [a, b, c, d, e, f, g, h, i, j, k, l])"

text \<open>
  The variables that live across the passes: the two previous poses, the three
  accumulators and what has been printed.
\<close>

record recon_state =
  pose_0 :: mat34
  pose_1 :: mat34
  pose_array :: "real list"
  total_points :: "vec3 list"
  total_colors :: "colour list"
  stdout :: "printed list"

text \<open>
  One pass: the state it leaves, and the exception that ended it if there was one. The
  accumulators are assigned one after the other, so an exception in between leaves the
  earlier assignments in place. \<^verbatim>\<open>np.vstack\<close> refuses the empty colour array, whose
  shape is \<open>(0,)\<close>.
\<close>

definition loop_body ::
  "'des opencv \<Rightarrow> string list \<Rightarrow> mat33 \<Rightarrow> recon_state \<Rightarrow> nat \<Rightarrow> recon_state \<times> error option" where
  "loop_body cv image_paths K s i =
     (let r = frame_step cv image_paths K (pose_0 s) (pose_1 s) i;
          s0 = s\<lparr>stdout := stdout s @ fst r\<rparr>
      in case snd r of
           Inl e \<Rightarrow> (s0, Some e)
         | Inr (pose_2, points_3d, cm_mask_1, img) \<Rightarrow>
            (let s1 = s0\<lparr>pose_array := pose_array s0 @ ravel_34 pose_2\<rparr>;
                 s2 = s1\<lparr>total_points := total_points s1 @ points_3d\<rparr>
             in case color_vector img cm_mask_1 of
                  Inl e \<Rightarrow> (s2, Some e)
                | Inr colours \<Rightarrow>
                   if colours = [] then (s2, Some ValueError)
                   else (s2\<lparr>total_colors := total_colors s2 @ colours,
                            pose_0 := pose_1 s2, pose_1 := pose_2\<rparr>, None)))"

text \<open>\<^verbatim>\<open>for i in range(len(image_paths) - 2)\<close>: the passes in order, up to the first exception.\<close>

fun run_loop ::
  "'des opencv \<Rightarrow> string list \<Rightarrow> mat33 \<Rightarrow> recon_state \<Rightarrow> nat list \<Rightarrow> recon_state \<times> error option" where
  "run_loop cv image_paths K s [] = (s, None)"
| "run_loop cv image_paths K s (i # rest) =
     (case loop_body cv image_paths K s i of
        (s', Some e) \<Rightarrow> (s', Some e)
      | (s', None) \<Rightarrow> run_loop cv image_paths K s' rest)"

definition main_loop ::
  "'des opencv \<Rightarrow> string list \<Rightarrow> mat33 \<Rightarrow> recon_state \<Rightarrow> recon_state \<times> error option" where
  "main_loop cv image_paths K s = run_loop cv image_paths K s [0..<length image_paths - 2]"

section \<open>Export: \<^verbatim>\<open>to_ply\<close>\<close>

text \<open>
  The colours reach the exporter as an array of 64-bit integers; \<^verbatim>\<open>astype(np.uint8)\<close>
  keeps the low eight bits.
\<close>

definition astype_uint8 :: "int \<Rightarrow> int" where
  "astype_uint8 v = v mod 256"

definition out_color :: "int \<Rightarrow> int" where
  "out_color c = astype_uint8 (c * 255)"

text \<open>
  The exporter computes with 64-bit floats, and which rows it keeps depends on how the
  results are rounded. The rounded operations of NumPy are therefore parameters of the
  model, as the functions of OpenCV are: the sum, the difference and the product of two
  floats, \<^verbatim>\<open>x ** 2\<close>, \<^verbatim>\<open>np.sqrt\<close>, \<^verbatim>\<open>np.mean\<close> of a one-dimensional array and
  \<^verbatim>\<open>np.mean(..., axis=0)\<close> of an \<open>(N, 3)\<close> array. The comparison of two floats is
  exact. NaN and the infinities are outside the model.
\<close>

record float_arith =
  fl_add :: "real \<Rightarrow> real \<Rightarrow> real"
  fl_sub :: "real \<Rightarrow> real \<Rightarrow> real"
  fl_mul :: "real \<Rightarrow> real \<Rightarrow> real"
  fl_square :: "real \<Rightarrow> real"
  fl_sqrt :: "real \<Rightarrow> real"
  fl_mean :: "real list \<Rightarrow> real"
  fl_mean_axis0 :: "vec3 list \<Rightarrow> vec3"

text \<open>\<^verbatim>\<open>point_cloud.reshape(-1, 3) * 200\<close>, row by row.\<close>

definition out_point :: "float_arith \<Rightarrow> vec3 \<Rightarrow> vec3" where
  "out_point arith p =
     (case p of (x, y, z) \<Rightarrow> (fl_mul arith x 200, fl_mul arith y 200, fl_mul arith z 200))"

text \<open>
  A row of \<^verbatim>\<open>verts\<close>: six floats, of which the last three hold the colour bytes.
  \<^verbatim>\<open>np.hstack\<close> refuses arrays with different numbers of rows.
\<close>

type_synonym vert = "vec3 \<times> real \<times> real \<times> real"

definition hstack_verts :: "vec3 list \<Rightarrow> colour list \<Rightarrow> error + vert list" where
  "hstack_verts out_points out_colors =
     (if length out_points = length out_colors
      then Inr (map (\<lambda>(p, (r, g, b)). (p, real_of_int r, real_of_int g, real_of_int b))
                    (zip out_points out_colors))
      else Inl ValueError)"

text \<open>
  The array \<^verbatim>\<open>dist\<close>: with \<^verbatim>\<open>mean = np.mean(verts[:, :3], axis=0)\<close> and
  \<^verbatim>\<open>scaled_verts = verts[:, :3] - mean\<close>, the square root of
  \<^verbatim>\<open>scaled_verts[:, 0] ** 2 + scaled_verts[:, 1] ** 2 + scaled_verts[:, 2] ** 2\<close>.
\<close>

definition ply_dist :: "float_arith \<Rightarrow> vert list \<Rightarrow> real list" where
  "ply_dist arith verts =
     (let mean = fl_mean_axis0 arith (map fst verts)
      in map (\<lambda>v. case (fst v, mean) of
                     ((x, y, z), (mx, my, mz)) \<Rightarrow>
                       fl_sqrt arith
                         (fl_add arith
                            (fl_add arith (fl_square arith (fl_sub arith x mx))
                                          (fl_square arith (fl_sub arith y my)))
                            (fl_square arith (fl_sub arith z mz))))
             verts)"

text \<open>
  The array \<^verbatim>\<open>verts\<close> before the filter, for a cloud and a colour array with the same
  number of rows.
\<close>

definition ply_verts :: "float_arith \<Rightarrow> vec3 list \<Rightarrow> colour list \<Rightarrow> vert list" where
  "ply_verts arith point_cloud colors =
     map (\<lambda>(p, (r, g, b)). (p, real_of_int r, real_of_int g, real_of_int b))
       (zip (map (out_point arith) point_cloud)
            (map (\<lambda>(r, g, b). (out_color r, out_color g, out_color b)) colors))"

text \<open>\<^verbatim>\<open>indx = np.where(dist < np.mean(dist) + 300)\<close>: the indices of the rows that stay.\<close>

definition ply_indx :: "float_arith \<Rightarrow> real list \<Rightarrow> nat list" where
  "ply_indx arith d =
     filter (\<lambda>i. d ! i < fl_add arith (fl_mean arith d) 300) [0..<length d]"

text \<open>The decimal digits that \<^verbatim>\<open>%d\<close> prints for a natural number.\<close>

definition digit_char :: "nat \<Rightarrow> char" where
  "digit_char d = char_of (48 + d)"

function show_nat :: "nat \<Rightarrow> string" where
  "show_nat n =
     (if n < 10 then [digit_char n] else show_nat (n div 10) @ [digit_char (n mod 10)])"
  by pat_completeness auto
termination
  by (relation "measure id") auto

declare show_nat.simps [simp del]

text \<open>
  The header template with \<^verbatim>\<open>%(vert_num)d\<close> filled in. The lines of the literal are
  indented in the source, and it ends with four blanks after the last line break.
\<close>

definition header_before_count :: string where
  "header_before_count = ''ply\<newline>    format ascii 1.0\<newline>    element vertex ''"

definition header_after_count :: string where
  "header_after_count =
     ''\<newline>    property float x\<newline>    property float y\<newline>    property float z'' @
     ''\<newline>    property uchar red\<newline>    property uchar green\<newline>    property uchar blue'' @
     ''\<newline>    end_header\<newline>    ''"

definition ply_header :: "nat \<Rightarrow> string" where
  "ply_header vert_num = header_before_count @ show_nat vert_num @ header_after_count"

text \<open>
  \<^verbatim>\<open>np.savetxt(f, verts, '%f %f %f %d %d %d')\<close> writes one line for every row: the three
  coordinates as floats and the three colour entries as integers (\<^verbatim>\<open>%d\<close> truncates
  a float). The rendering of \<^verbatim>\<open>%f\<close> is not modelled: a data line keeps the numbers.
\<close>

datatype ply_line = Vertex real real real int int int

definition savetxt_line :: "vert \<Rightarrow> ply_line" where
  "savetxt_line v =
     (case v of ((x, y, z), r, g, b) \<Rightarrow> Vertex x y z (py_int r) (py_int g) (py_int b))"

text \<open>\<^verbatim>\<open>os.path.join\<close> of two components.\<close>

definition path_join :: "string \<Rightarrow> string \<Rightarrow> string" where
  "path_join a b =
     (if b \<noteq> [] \<and> hd b = CHR ''/'' then b
      else if a = [] \<or> last a = CHR ''/'' then a @ b
      else a @ ''/'' @ b)"

text \<open>What the exporter writes: the name of the file, the header and the data lines.\<close>

record ply_file =
  file_name :: string
  header :: string
  data_lines :: "ply_line list"

definition to_ply ::
  "float_arith \<Rightarrow> string \<Rightarrow> vec3 list \<Rightarrow> colour list \<Rightarrow> error + ply_file" where
  "to_ply arith path point_cloud colors =
     (let out_points = map (out_point arith) point_cloud;
          out_colors = map (\<lambda>(r, g, b). (out_color r, out_color g, out_color b)) colors
      in bindE (hstack_verts out_points out_colors) (\<lambda>verts.
           let dist = ply_dist arith verts;
               indx = ply_indx arith dist;
               verts = map (nth verts) indx;
               output_dir = path_join path ''res'';
               output_file = path_join output_dir ''point_cloud.ply''
           in Inr \<lparr>file_name = output_file,
                   header = ply_header (length verts),
                   data_lines = map savetxt_line verts\<rparr>))"

text \<open>
  Reading the file back: the vertex count that the header declares is the decimal
  number after \<^verbatim>\<open>element vertex\<close>.
\<close>

definition is_digit :: "char \<Rightarrow> bool" where
  "is_digit c = ((48 :: nat) \<le> of_char c \<and> of_char c \<le> (57 :: nat))"

definition read_nat :: "string \<Rightarrow> nat" where
  "read_nat ds = foldl (\<lambda>acc c. 10 * acc + (of_char c - 48)) 0 ds"

definition declared_vertex_count :: "string \<Rightarrow> nat" where
  "declared_vertex_count h =
     read_nat (takeWhile is_digit (drop (length header_before_count) h))"

section \<open>The properties as the specification words them\<close>

text \<open>
  The specification describes the reprojection evaluator as the mean, over all points,
  of the Euclidean distance between the projected and the observed point.
\<close>

definition point_distance :: "point2 \<Rightarrow> point2 \<Rightarrow> real" where
  "point_distance p q = sqrt ((fst p - fst q)\<^sup>2 + (snd p - snd q)\<^sup>2)"

definition mean_point_distance :: "point2 list \<Rightarrow> point2 list \<Rightarrow> real" where
  "mean_point_distance ps qs = (\<Sum>(p, q)\<leftarrow>zip ps qs. point_distance p q) / real (length ps)"

section \<open>OpenCV at the concrete inputs of the examples\<close>

text \<open>
  The examples below run the notebook's functions on concrete inputs. Each needs the
  results of the OpenCV calls at these inputs; the following functions fix them.

  Two cameras \<open>[I | 0]\<close> and \<open>[I | (1, 0, 0)]\<close> that see a point at the pixel
  \<open>(0, 0)\<close> of both images look along parallel rays: the linear system of the
  triangulation has the point at infinity \<open>(0, 0, 1, 0)\<close> as its solution, for every
  such correspondence.
\<close>

definition triangulatePoints_parallel_rays ::
  "mat34 \<Rightarrow> mat34 \<Rightarrow> point2 list \<Rightarrow> point2 list \<Rightarrow> error + f64 vec4 list" where
  "triangulatePoints_parallel_rays P1 P2 x1 x2 =
     Inr (map (\<lambda>p. (Finite 0, Finite 0, Finite 1, Finite 0)) x1)"

text \<open>
  Called as the notebook calls it, \<^verbatim>\<open>cv.solvePnPRansac\<close> on six or more correspondences
  fits poses to samples of five and accepts a pose only if at least five correspondences
  are within 8 pixels of their reprojection. When no pose is accepted it returns the
  flag \<^verbatim>\<open>False\<close>, no inliers, and the rotation and translation vector that its
  working buffers hold at that moment; these two are arguments of the function below.
  \<^verbatim>\<open>cv.Rodrigues\<close> maps the zero vector to the identity matrix and the identity
  matrix to the zero vector.
\<close>

definition solvePnPRansac_no_consensus ::
  "vec3 \<Rightarrow> vec3 \<Rightarrow> vec3 list \<Rightarrow> point2 list \<Rightarrow> mat33 \<Rightarrow>
   error + (bool \<times> vec3 \<times> vec3 \<times> nat list option)" where
  "solvePnPRansac_no_consensus last_rvec last_tvec obj_point image_point K =
     Inr (False, last_rvec, last_tvec, None)"

definition Rodrigues_of_zero :: "vec3 \<Rightarrow> mat33" where
  "Rodrigues_of_zero v = ((1, 0, 0), (0, 1, 0), (0, 0, 1))"

definition Rodrigues_of_identity :: "mat33 \<Rightarrow> vec3" where
  "Rodrigues_of_identity R = (0, 0, 0)"

text \<open>
  Without rotation and distortion \<^verbatim>\<open>cv.projectPoints\<close> maps a point \<open>X\<close> to the
  first two entries of \<open>K (X + t)\<close> divided by the third.
  \<^verbatim>\<open>cv.convertPointsFromHomogeneous\<close> divides by the last entry where it is not zero.
\<close>

definition projectPoints_unrotated ::
  "vec3 list \<Rightarrow> vec3 \<Rightarrow> vec3 \<Rightarrow> mat33 \<Rightarrow> error + point2 list" where
  "projectPoints_unrotated pts rvec tvec K =
     Inr (map (\<lambda>p. case matvec K (add3 p tvec) of (u, v, w) \<Rightarrow> (u / w, v / w)) pts)"

definition convertPointsFromHomogeneous_scaled :: "real vec4 list \<Rightarrow> error + vec3 list" where
  "convertPointsFromHomogeneous_scaled pts =
     Inr (map (\<lambda>(x, y, z, w). if w = 0 then (x, y, z) else (x / w, y / w, z / w)) pts)"

text \<open>A directory in which the frame \<^verbatim>\<open>0001.jpg\<close> cannot be decoded.\<close>

definition imread_without_0001 :: "string \<Rightarrow> image option" where
  "imread_without_0001 path =
     (if path = ''./Assets/0001.jpg'' then None
      else Some [[(10, 20, 30), (40, 50, 60)], [(70, 80, 90), (100, 110, 120)]])"

definition detect_nothing :: "image \<Rightarrow> point2 list \<times> unit" where
  "detect_nothing img = ([], ())"

definition knnMatch_nothing :: "unit \<Rightarrow> unit \<Rightarrow> error + DMatch list list" where
  "knnMatch_nothing des1 des2 = Inr []"

text \<open>
  Floating-point arithmetic on inputs where every intermediate result is an integer
  below \<open>2^53\<close>, or a quotient of such integers that is again one: each operation
  is exact there, and the order of a summation does not matter.
\<close>

definition exact_mean :: "real list \<Rightarrow> real" where
  "exact_mean xs = sum_list xs / real (length xs)"

definition exact_mean_axis0 :: "vec3 list \<Rightarrow> vec3" where
  "exact_mean_axis0 ps =
     (exact_mean (map fst ps), exact_mean (map (\<lambda>p. fst (snd p)) ps),
      exact_mean (map (\<lambda>p. snd (snd p)) ps))"

definition exact_arith :: float_arith where
  "exact_arith =
     \<lparr>fl_add = (\<lambda>a b. a + b), fl_sub = (\<lambda>a b. a - b), fl_mul = (\<lambda>a b. a * b),
      fl_square = (\<lambda>a. a * a), fl_sqrt = sqrt,
      fl_mean = exact_mean, fl_mean_axis0 = exact_mean_axis0\<rparr>"

text \<open>
  Two frames with two keypoints each, of which the first is matched with a clear margin
  (distances 1 and 2) and the second is not (distances 3 and 4).
\<close>

definition two_descriptors :: "image \<Rightarrow> point2 list \<times> unit" where
  "two_descriptors img = ([(0.5, 0.25), (1.5, 0.75)], ())"

definition knnMatch_two :: "unit \<Rightarrow> unit \<Rightarrow> error + DMatch list list" where
  "knnMatch_two des1 des2 =
     Inr [[\<lparr>queryIdx = 0, trainIdx = 1, distance = 1\<rparr>, \<lparr>queryIdx = 0, trainIdx = 0, distance = 2\<rparr>],
          [\<lparr>queryIdx = 1, trainIdx = 0, distance = 3\<rparr>, \<lparr>queryIdx = 1, trainIdx = 1, distance = 4\<rparr>]]"

text \<open>
  The loop of the last example ends before it reaches the triangulation or the pose
  registration; there \<^verbatim>\<open>cv.triangulatePoints\<close> and \<^verbatim>\<open>cv.solvePnPRansac\<close> are taken
  to refuse their input.
\<close>

definition triangulatePoints_refused ::
  "mat34 \<Rightarrow> mat34 \<Rightarrow> point2 list \<Rightarrow> point2 list \<Rightarrow> error + real vec4 list" where
  "triangulatePoints_refused P1 P2 x1 x2 = Inl CvError"

definition solvePnPRansac_refused ::
  "vec3 list \<Rightarrow> point2 list \<Rightarrow> mat33 \<Rightarrow> error + (bool \<times> vec3 \<times> vec3 \<times> nat list option)" where
  "solvePnPRansac_refused obj_point image_point K = Inl CvError"

definition cv_without_0001 :: "unit opencv" where
  "cv_without_0001 =
     \<lparr>cv_imread = imread_without_0001,
      cv_detectAndCompute = detect_nothing,
      cv_knnMatch = knnMatch_nothing,
      cv_triangulatePoints = triangulatePoints_refused,
      cv_convertPointsFromHomogeneous = convertPointsFromHomogeneous_scaled,
      cv_solvePnPRansac = solvePnPRansac_refused,
      cv_Rodrigues_vector = Rodrigues_of_zero,
      cv_Rodrigues_matrix = Rodrigues_of_identity,
      cv_projectPoints = projectPoints_unrotated\<rparr>"

section \<open>Properties of the correspondence tracker\<close>

lemma where_from_Nil: "where_from n [] p = []"
  by (simp add: where_from_def eq_broadcast_def)

lemma where_from_Cons:
  "where_from n (q # arr) p =
     (if fst q = fst p then [n] else []) @ (if snd q = snd p then [n] else []) @
     where_from (Suc n) arr p"
  by (simp add: where_from_def eq_broadcast_def)

lemma where_from_empty_iff:
  "where_from n arr p = [] \<longleftrightarrow> \<not> list_ex (\<lambda>q. shares_coordinate q p) arr"
  by (induction arr arbitrary: n) (auto simp: where_from_Nil where_from_Cons shares_coordinate_def)

lemma hd_where_from:
  "list_ex (\<lambda>q. shares_coordinate q p) arr \<Longrightarrow>
   hd (where_from n arr p) = n + first_sharing arr p"
proof (induction arr arbitrary: n)
  case Nil
  then show ?case by simp
next
  case (Cons q arr)
  show ?case
  proof (cases "shares_coordinate q p")
    case True
    then show ?thesis
      by (auto simp: where_from_Cons shares_coordinate_def first_sharing_def)
  next
    case False
    with Cons.prems have "list_ex (\<lambda>q. shares_coordinate q p) arr" by simp
    from Cons.IH[OF this, of "Suc n"] False show ?thesis
      by (auto simp: where_from_Cons shares_coordinate_def first_sharing_def)
  qed
qed

lemma np_where_rows_where_from: "np_where_rows (eq_broadcast arr p) = where_from 0 arr p"
  by (simp add: np_where_rows_def where_from_def)

lemma common_step_characterised:
  "common_step a b cm i =
     (if list_ex (\<lambda>q. shares_coordinate q (a ! i)) b
      then (fst cm @ [i], snd cm @ [first_sharing b (a ! i)]) else cm)"
  using where_from_empty_iff[of 0 b "a ! i"] hd_where_from[of "a ! i" b 0]
  by (auto simp: common_step_def Let_def np_where_rows_where_from)

lemma foldl_common_step:
  "foldl (common_step a b) ([], []) [0..<k] =
     (filter (\<lambda>i. list_ex (\<lambda>q. shares_coordinate q (a ! i)) b) [0..<k],
      map (\<lambda>i. first_sharing b (a ! i))
          (filter (\<lambda>i. list_ex (\<lambda>q. shares_coordinate q (a ! i)) b) [0..<k]))"
  by (induction k) (simp_all add: common_step_characterised)

text \<open>
  What the tracker computes: the first index list holds, in increasing order, the
  indices of the rows of the first array that share a coordinate with some row of the
  second array, and the second list holds for each of them the index of the first such
  row of the second array.
\<close>

theorem common_indices_characterised:
  "common_indices image_points_1 image_points_2 =
     (filter (\<lambda>i. list_ex (\<lambda>q. shares_coordinate q (image_points_1 ! i)) image_points_2)
             [0..<length image_points_1],
      map (\<lambda>i. first_sharing image_points_2 (image_points_1 ! i))
          (filter (\<lambda>i. list_ex (\<lambda>q. shares_coordinate q (image_points_1 ! i)) image_points_2)
                  [0..<length image_points_1]))"
  by (simp add: common_indices_def foldl_common_step)

text \<open>
  The tracking example of the specification: the first pair ends in \<open>(2, 2)\<close>, the
  second pair leads from \<open>(2, 2)\<close> to \<open>(3, 3)\<close>. The tracker reports index 0 in
  both lists, and neither complementary array holds \<open>(2, 2)\<close> or \<open>(3, 3)\<close>,
  whether the third array is that of the second pair or that of a disjoint pair.
\<close>

theorem common_points_tracking_example:
  "common_points [(2, 2)] [(2, 2)] [(3, 3)] =
     ([ShapeNewArray (0, 2) (0, 2)], Inr ([0], [0], [], [])) \<and>
   common_points [(2, 2)] [(2, 2)] [(9, 9)] =
     ([ShapeNewArray (0, 2) (0, 2)], Inr ([0], [0], [], []))"
  by (simp add: common_points_def common_indices_characterised shares_coordinate_def
      first_sharing_def compress_rows_def Let_def)

text \<open>
  C1. The tracker is documented to find the common points of two coordinate arrays,
  that is the indices \<open>i\<close>, \<open>j\<close> with \<open>image_points_1[i] = image_points_2[j]\<close>.
  The comparison is element-wise, so a row that shares a single coordinate with the
  probe already counts as a match: on the first array \<open>[(1, 5)]\<close> and the second array
  \<open>[(1, 7)]\<close>, whose only points differ, the tracker reports index 0 in both lists and
  removes \<open>(1, 7)\<close> and the third array's row 0 from the complementary outputs.
\<close>

theorem common_points_matches_single_coordinate:
  "common_points [(1, 5)] [(1, 7)] [(4, 4)] =
     ([ShapeNewArray (0, 2) (0, 2)], Inr ([0], [0], [], []))"
  by (simp add: common_points_def common_indices_def common_step_def np_where_rows_def
      eq_broadcast_def compress_rows_def enumerate_eq_zip Let_def)

section \<open>Properties of the triangulator\<close>

lemma divide_by_zero_not_finite: "\<not> is_finite (x / Finite 0)"
  by (cases x) (simp_all add: divide_f64_def fdiv_def)

lemma zero_by_zero_NaN: "Finite 0 / Finite 0 = NaN"
  by (simp add: divide_f64_def fdiv_def)

text \<open>
  C2 (as claimed). A correspondence whose homogeneous solution has a zero fourth
  coordinate would be detected and dropped, so that the output holds no NaN and no
  infinity. The function has no such check: for the point at infinity of two parallel
  rays it returns that one point, with the coordinates NaN and infinity.
\<close>

theorem triangulation_keeps_degenerate_point:
  "triangulation triangulatePoints_parallel_rays
     transform_matrix_0 ((1, 0, 0, 1), (0, 1, 0, 0), (0, 0, 1, 0)) [(0, 0)] [(0, 0)] =
   Inr ([(0, 0)], [(0, 0)], [(NaN, NaN, PosInf, NaN)])"
  by (simp add: triangulation_def triangulatePoints_parallel_rays_def bindE_def
      normalise_column_def divide_f64_def fdiv_def)

text \<open>
  C2 (amended). Whenever \<^verbatim>\<open>cv.triangulatePoints\<close> returns, the triangulator returns
  the two point arrays and every homogeneous solution divided by its own fourth
  coordinate, in order: the output has as many points as there are solutions, none is
  dropped, and a solution whose fourth coordinate is zero stays in the output with a
  NaN as fourth coordinate and three coordinates that are NaN or infinite.
\<close>

theorem triangulation_keeps_every_column:
  fixes triangulatePoints :: "'m \<Rightarrow> 'm \<Rightarrow> 'p list \<Rightarrow> 'p list \<Rightarrow> error + f64 vec4 list"
  assumes "triangulatePoints point_2d_1 point_2d_2 projection_matrix_1 projection_matrix_2 =
             Inr pt_cloud"
  shows "\<exists>out.
           triangulation triangulatePoints point_2d_1 point_2d_2
               projection_matrix_1 projection_matrix_2 =
             Inr (projection_matrix_1, projection_matrix_2, out) \<and>
           length out = length pt_cloud \<and>
           (\<forall>i < length pt_cloud. out ! i = normalise_column (pt_cloud ! i)) \<and>
           (\<forall>i < length pt_cloud. \<forall>x y z. pt_cloud ! i = (x, y, z, Finite 0) \<longrightarrow>
              (\<exists>x' y' z'. out ! i = (x', y', z', NaN) \<and>
                 \<not> is_finite x' \<and> \<not> is_finite y' \<and> \<not> is_finite z'))"
proof -
  let ?out = "map normalise_column pt_cloud"
  have run: "triangulation triangulatePoints point_2d_1 point_2d_2
               projection_matrix_1 projection_matrix_2 =
             Inr (projection_matrix_1, projection_matrix_2, ?out)"
    using assms by (simp add: triangulation_def bindE_def)
  have deg: "\<exists>x' y' z'. ?out ! i = (x', y', z', NaN) \<and>
                 \<not> is_finite x' \<and> \<not> is_finite y' \<and> \<not> is_finite z'"
    if "i < length pt_cloud" "pt_cloud ! i = (x, y, z, Finite 0)" for i x y z
    using that by (simp add: normalise_column_def divide_by_zero_not_finite zero_by_zero_NaN)
  show ?thesis using run deg by auto
qed

theorem triangulation_keeps_every_column_witness:
  "triangulatePoints_parallel_rays transform_matrix_0 ((1, 0, 0, 1), (0, 1, 0, 0), (0, 0, 1, 0))
     [(0, 0), (0, 0)] [(0, 0), (0, 0)] =
     Inr [(Finite 0, Finite 0, Finite 1, Finite 0), (Finite 0, Finite 0, Finite 1, Finite 0)] \<and>
   (\<exists>out. triangulation triangulatePoints_parallel_rays
             transform_matrix_0 ((1, 0, 0, 1), (0, 1, 0, 0), (0, 0, 1, 0))
             [(0, 0), (0, 0)] [(0, 0), (0, 0)] = Inr ([(0, 0), (0, 0)], [(0, 0), (0, 0)], out) \<and>
          length out = 2 \<and> out ! 1 = (NaN, NaN, PosInf, NaN))"
proof -
  let ?P2 = "((1, 0, 0, 1), (0, 1, 0, 0), (0, 0, 1, 0)) :: mat34"
  let ?cloud = "[(Finite 0, Finite 0, Finite 1, Finite 0), (Finite 0, Finite 0, Finite 1, Finite 0)]"
  have tp: "triangulatePoints_parallel_rays transform_matrix_0 ?P2
              [(0, 0), (0, 0)] [(0, 0), (0, 0)] = Inr ?cloud"
    by (simp add: triangulatePoints_parallel_rays_def)
  from triangulation_keeps_every_column[of triangulatePoints_parallel_rays
      transform_matrix_0 ?P2 "[(0, 0), (0, 0)]" "[(0, 0), (0, 0)]", OF tp]
  obtain out where o:
    "triangulation triangulatePoints_parallel_rays transform_matrix_0 ?P2
             [(0, 0), (0, 0)] [(0, 0), (0, 0)] = Inr ([(0, 0), (0, 0)], [(0, 0), (0, 0)], out)"
    "length out = length ?cloud"
    "\<forall>i < length ?cloud. out ! i = normalise_column (?cloud ! i)"
    by blast
  from o(3) have "out ! 1 = normalise_column (Finite 0, Finite 0, Finite 1, Finite 0)" by simp
  then have "out ! 1 = (NaN, NaN, PosInf, NaN)"
    by (simp add: normalise_column_def divide_f64_def fdiv_def)
  with tp o show ?thesis by simp
qed

section \<open>Properties of the pose registrar\<close>

lemma take_rows_in_range:
  "list_all (\<lambda>j. j < length arr) idx \<Longrightarrow> take_rows arr idx = Inr (map (nth arr) idx)"
  by (simp add: take_rows_def)

lemma list_all_three:
  "list_all (\<lambda>j. P j \<and> Q j \<and> R j) xs \<longleftrightarrow> list_all P xs \<and> list_all Q xs \<and> list_all R xs"
  by (induction xs) auto

text \<open>
  C3 (as claimed). With fewer than four inliers the registrar would fail with an
  \<^verbatim>\<open>InsufficientInliers\<close> error. The notebook raises no such error. Take six
  correspondences whose object points lie three by three on two skew lines, while the
  image points of either triple form a triangle no line comes close to. A pose maps
  collinear points to collinear pixels, so under any pose at most two correspondences of
  a triple, and at most four of the six, are within 8 pixels of their reprojection:
  RANSAC finds no consensus and reports no inlier. Whatever rotation and translation
  vector the call hands back, the registrar returns them as the pose, together with
  the six unfiltered correspondences.
\<close>

theorem PnP_returns_pose_without_inliers:
  "\<forall>last_rvec last_tvec Rodrigues.
     PnP (solvePnPRansac_no_consensus last_rvec last_tvec) Rodrigues
       [(0, 0, 5), (1, 0, 5), (2, 0, 5), (0, 1, 7), (0, 2, 8), (0, 3, 9)]
       [(100, 100), (900, 100), (500, 700), (100, 700), (900, 700), (500, 100)]
       ((1270.95, 0.00032, 518.57), (0, 1272.75, 393.43), (0, 0, 1))
       [(10 :: nat), 11, 12, 13, 14, 15] =
     Inr (Rodrigues last_rvec, last_tvec,
          [(100, 100), (900, 100), (500, 700), (100, 700), (900, 700), (500, 100)],
          [(0, 0, 5), (1, 0, 5), (2, 0, 5), (0, 1, 7), (0, 2, 8), (0, 3, 9)],
          [10, 11, 12, 13, 14, 15])"
  by (simp add: PnP_def solvePnPRansac_no_consensus_def bindE_def)

text \<open>
  C3 (amended). The registrar never looks at the success flag or at the number of
  inliers and has no \<^verbatim>\<open>InsufficientInliers\<close> error. An exception of
  \<^verbatim>\<open>cv.solvePnPRansac\<close> is passed on. When it returns, with the inlier set
  \<^verbatim>\<open>None\<close> the registrar returns the pose (the rotation vector converted to a matrix,
  and the translation) and the three arrays unfiltered; with an inlier set, however
  small, it returns the pose and the three arrays restricted to the inlier indices,
  unless one of the indices is out of range for one of the three arrays, which raises
  \<^verbatim>\<open>IndexError\<close>.
\<close>

theorem PnP_passes_on_any_inlier_count:
  "PnP solvePnPRansac Rodrigues obj_point image_point K rot_vector =
     (case solvePnPRansac obj_point image_point K of
        Inl e \<Rightarrow> Inl e
      | Inr (retval, rvec, tvec, inlier) \<Rightarrow>
         (case inlier of
            None \<Rightarrow> Inr (Rodrigues rvec, tvec, image_point, obj_point, rot_vector)
          | Some inl \<Rightarrow>
             if list_all (\<lambda>j. j < length image_point \<and> j < length obj_point \<and>
                               j < length rot_vector) inl
             then Inr (Rodrigues rvec, tvec, map (nth image_point) inl,
                       map (nth obj_point) inl, map (nth rot_vector) inl)
             else Inl IndexError))"
proof (cases "solvePnPRansac obj_point image_point K")
  case (Inl e)
  then show ?thesis by (simp add: PnP_def bindE_def)
next
  case (Inr r)
  obtain retval rvec tvec inlier where r: "r = (retval, rvec, tvec, inlier)"
    by (cases r) auto
  show ?thesis
  proof (cases inlier)
    case None
    with Inr r show ?thesis by (simp add: PnP_def bindE_def)
  next
    case (Some inl)
    show ?thesis
    proof (cases "list_all (\<lambda>j. j < length image_point) inl \<and>
                  list_all (\<lambda>j. j < length obj_point) inl \<and>
                  list_all (\<lambda>j. j < length rot_vector) inl")
      case True
      with Inr r Some show ?thesis
        by (simp add: PnP_def bindE_def take_rows_in_range list_all_three)
    next
      case False
      then have "bindE (take_rows image_point inl) (\<lambda>image_point'.
                 bindE (take_rows obj_point inl) (\<lambda>obj_point'.
                 bindE (take_rows rot_vector inl) (\<lambda>rot_vector'.
                   Inr (Rodrigues rvec, tvec, image_point', obj_point', rot_vector')))) =
                 Inl IndexError"
        by (auto simp: bindE_def take_rows_def)
      with Inr r Some False show ?thesis
        by (simp add: PnP_def bindE_def list_all_three)
    qed
  qed
qed

section \<open>Properties of the reprojection evaluator\<close>

lemma point_distance_squared:
  "(point_distance p q)\<^sup>2 = (fst p - fst q)\<^sup>2 + (snd p - snd q)\<^sup>2"
  by (simp add: point_distance_def)

lemma point_distance_nonneg: "0 \<le> point_distance p q"
  by (simp add: point_distance_def)

lemma cv_norm_L2_same_length:
  "length a = length b \<Longrightarrow>
   cv_norm_L2 a b = Inr (sqrt (\<Sum>(p, q)\<leftarrow>zip a b. (point_distance p q)\<^sup>2))"
  by (simp add: cv_norm_L2_def point_distance_squared)

lemma l2_le_l1:
  assumes "\<And>x. 0 \<le> f x"
  shows "sqrt (\<Sum>x\<leftarrow>xs. (f x)\<^sup>2) \<le> (\<Sum>x\<leftarrow>xs. f x)"
proof (induction xs)
  case Nil
  show ?case by simp
next
  case (Cons x xs)
  have nn: "0 \<le> (\<Sum>x\<leftarrow>xs. (f x)\<^sup>2)" by (rule sum_list_nonneg) auto
  have "sqrt ((f x)\<^sup>2 + (\<Sum>x\<leftarrow>xs. (f x)\<^sup>2)) \<le> sqrt ((f x)\<^sup>2) + sqrt (\<Sum>x\<leftarrow>xs. (f x)\<^sup>2)"
    using nn by (intro sqrt_add_le_add_sqrt) simp_all
  also have "\<dots> \<le> f x + (\<Sum>x\<leftarrow>xs. f x)" using assms[of x] Cons.IH by simp
  finally show ?case by simp
qed

lemma norm_le_sum_of_distances:
  "sqrt (\<Sum>(p, q)\<leftarrow>zip a b. (point_distance p q)\<^sup>2) \<le> (\<Sum>(p, q)\<leftarrow>zip a b. point_distance p q)"
  using l2_le_l1[of "\<lambda>x. point_distance (fst x) (snd x)" "zip a b"]
  by (simp add: split_def point_distance_nonneg)

lemma sqrt_25: "sqrt 25 = 5"
  using real_sqrt_abs[of 5] by simp

lemma sqrt_9: "sqrt 9 = 3"
  using real_sqrt_abs[of 3] by simp

lemma sqrt_16: "sqrt 16 = 4"
  using real_sqrt_abs[of 4] by simp

text \<open>
  C4 (as claimed). The evaluator would return the mean of the distances between each
  projected point and its observed point. For two points that project to \<open>(3, 0)\<close>
  and \<open>(0, 4)\<close> and are both observed at the origin, the distances are 3 and 4 and
  their mean is 7/2, but the evaluator returns 5/2.
\<close>

theorem reprojection_error_is_not_the_mean_distance:
  "reprojection_error Rodrigues_of_identity convertPointsFromHomogeneous_scaled
     projectPoints_unrotated (Cartesian [(3, 0, 1), (0, 4, 1)]) [(0, 0), (0, 0)]
     transform_matrix_0 ((1, 0, 0), (0, 1, 0), (0, 0, 1)) 0 =
     Inr (5 / 2, [(3, 0, 1), (0, 4, 1)]) \<and>
   projectPoints_unrotated [(3, 0, 1), (0, 4, 1)] (0, 0, 0) (0, 0, 0)
     ((1, 0, 0), (0, 1, 0), (0, 0, 1)) = Inr [(3, 0), (0, 4)] \<and>
   mean_point_distance [(3, 0), (0, 4)] [(0, 0), (0, 0)] = 7 / 2"
  by (simp add: reprojection_error_def Let_def bindE_def cv_norm_L2_def
      projectPoints_unrotated_def Rodrigues_of_identity_def transform_matrix_0_def
      rot_part_def last_column_def matvec_def add3_def dot3_def
      mean_point_distance_def point_distance_def sqrt_25 sqrt_9 sqrt_16)

text \<open>
  C4 (amended). For a non-empty set of points, the evaluator returns the L2 norm of the
  whole array of differences between the projected and the observed points, that is the
  square root of the sum of the squared distances, divided by the number of points,
  together with the (converted) object points. This value never exceeds the mean
  distance and equals it when there is a single point.
\<close>

theorem reprojection_error_is_norm_over_count:
  assumes conv: "(homogenity = 1 \<and> obj_points = Homogeneous h \<and>
                    convertPointsFromHomogeneous h = Inr pts) \<or>
                 (homogenity \<noteq> 1 \<and> obj_points = Cartesian pts)"
    and proj: "projectPoints pts (Rodrigues (rot_part transform_matrix))
                 (last_column transform_matrix) K = Inr calc"
    and len: "length calc = length image_points"
    and ne: "calc \<noteq> []"
  shows "reprojection_error Rodrigues convertPointsFromHomogeneous projectPoints
           obj_points image_points transform_matrix K homogenity =
           Inr (sqrt (\<Sum>(p, q)\<leftarrow>zip calc image_points. (point_distance p q)\<^sup>2)
                  / real (length calc), pts) \<and>
         sqrt (\<Sum>(p, q)\<leftarrow>zip calc image_points. (point_distance p q)\<^sup>2) / real (length calc)
           \<le> mean_point_distance calc image_points \<and>
         (length calc = 1 \<longrightarrow>
            sqrt (\<Sum>(p, q)\<leftarrow>zip calc image_points. (point_distance p q)\<^sup>2) / real (length calc)
              = mean_point_distance calc image_points)"
proof -
  have run: "reprojection_error Rodrigues convertPointsFromHomogeneous projectPoints
           obj_points image_points transform_matrix K homogenity =
           Inr (sqrt (\<Sum>(p, q)\<leftarrow>zip calc image_points. (point_distance p q)\<^sup>2)
                  / real (length calc), pts)"
    using conv proj len ne
    by (auto simp: reprojection_error_def Let_def bindE_def cv_norm_L2_same_length)
  have le: "sqrt (\<Sum>(p, q)\<leftarrow>zip calc image_points. (point_distance p q)\<^sup>2) / real (length calc)
           \<le> mean_point_distance calc image_points"
    unfolding mean_point_distance_def
    by (intro divide_right_mono norm_le_sum_of_distances) simp
  have one: "sqrt (\<Sum>(p, q)\<leftarrow>zip calc image_points. (point_distance p q)\<^sup>2) / real (length calc)
              = mean_point_distance calc image_points" if "length calc = 1"
  proof -
    from that len obtain p q where "calc = [p]" "image_points = [q]"
      by (cases calc; cases image_points) auto
    then show ?thesis
      by (simp add: mean_point_distance_def point_distance_nonneg)
  qed
  show ?thesis using run le one by blast
qed

theorem reprojection_error_is_norm_over_count_witness:
  "reprojection_error Rodrigues_of_identity convertPointsFromHomogeneous_scaled
     projectPoints_unrotated (Homogeneous [(6, 0, 2, 2), (0, 4, 1, 1)]) [(0, 0), (0, 0)]
     transform_matrix_0 ((1, 0, 0), (0, 1, 0), (0, 0, 1)) 1 =
     Inr (5 / 2, [(3, 0, 1), (0, 4, 1)])"
proof -
  have conv: "((1 :: int) = 1 \<and> Homogeneous [(6, 0, 2, 2), (0, 4, 1, 1)] = Homogeneous [(6, 0, 2, 2), (0, 4, 1, 1)] \<and>
                 convertPointsFromHomogeneous_scaled [(6, 0, 2, 2), (0, 4, 1, 1)] = Inr [(3, 0, 1), (0, 4, 1)]) \<or>
              ((1 :: int) \<noteq> 1 \<and> Homogeneous [(6, 0, 2, 2), (0, 4, 1, 1)] = Cartesian [(3, 0, 1), (0, 4, 1)])"
    by (simp add: convertPointsFromHomogeneous_scaled_def)
  have proj: "projectPoints_unrotated [(3, 0, 1), (0, 4, 1)]
                (Rodrigues_of_identity (rot_part transform_matrix_0))
                (last_column transform_matrix_0) ((1, 0, 0), (0, 1, 0), (0, 0, 1)) =
              Inr [(3, 0), (0, 4)]"
    by (simp add: projectPoints_unrotated_def last_column_def transform_matrix_0_def
        matvec_def add3_def dot3_def)
  have len: "length [(3 :: real, 0 :: real), (0, 4)] = length [(0 :: real, 0 :: real), (0, 0)]"
    by simp
  have ne: "[(3 :: real, 0 :: real), (0, 4)] \<noteq> []" by simp
  from reprojection_error_is_norm_over_count[where Rodrigues = Rodrigues_of_identity
      and convertPointsFromHomogeneous = convertPointsFromHomogeneous_scaled
      and projectPoints = projectPoints_unrotated and homogenity = 1
      and obj_points = "Homogeneous [(6, 0, 2, 2), (0, 4, 1, 1)]"
      and h = "[(6, 0, 2, 2), (0, 4, 1, 1)]" and pts = "[(3, 0, 1), (0, 4, 1)]"
      and transform_matrix = transform_matrix_0 and K = "((1, 0, 0), (0, 1, 0), (0, 0, 1))"
      and calc = "[(3, 0), (0, 4)]" and image_points = "[(0, 0), (0, 0)]",
      OF conv proj len ne]
  show ?thesis by (simp add: point_distance_def sqrt_25)
qed

section \<open>Properties of the feature matcher and of a missing frame\<close>

lemma bindP_Inl: "bindP (out, Inl e) f = (out, Inl e)"
  by (simp add: bindP_def)

lemma bindP_Inr: "bindP (out, Inr x) f = (out @ fst (f x), snd (f x))"
  by (simp add: bindP_def)

lemma bindP_isl:
  assumes "\<And>x. snd m = Inr x \<Longrightarrow> isl (snd (f x))"
  shows "isl (snd (bindP m f))"
  using assms by (cases "snd m") (auto simp: bindP_def)

lemma get_matches_missing:
  "imread path1 = None \<or> imread path2 = None \<Longrightarrow>
   get_matches imread detectAndCompute knnMatch path1 path2 =
     ([Line ''Error reading images''], Inr None)"
  by (auto simp: get_matches_def Let_def)

lemma frame_step_first_pair_missing:
  assumes "i + 1 < length image_paths"
    and "cv_imread cv (image_paths ! i) = None \<or> cv_imread cv (image_paths ! (i + 1)) = None"
  shows "frame_step cv image_paths K p0 p1 i = ([Line ''Error reading images''], Inl TypeError)"
  using assms
  by (simp add: frame_step_def Let_def silent_def item_def bindP_Inr bindP_Inl
      get_matches_missing unpack_matches_def)

lemma frame_step_third_missing:
  assumes "i + 2 < length image_paths"
    and "cv_imread cv (image_paths ! (i + 2)) = None"
  shows "isl (snd (frame_step cv image_paths K p0 p1 i))"
  unfolding frame_step_def Let_def split_def
  apply (rule bindP_isl)+
  using assms
  apply (auto simp: silent_def item_def get_matches_missing unpack_matches_def)
  done

lemma foldE_invariant:
  assumes step: "\<And>acc x acc'. f acc x = Inr acc' \<Longrightarrow> P acc \<Longrightarrow> P acc'"
    and run: "foldE f xs acc = Inr r" and start: "P acc"
  shows "P r"
  using run start
proof (induction xs arbitrary: acc)
  case Nil
  then show ?case by simp
next
  case (Cons x xs)
  from Cons.prems(1) obtain acc' where a: "f acc x = Inr acc'" and r: "foldE f xs acc' = Inr r"
    by (cases "f acc x") auto
  from step[OF a Cons.prems(2)] have "P acc'" .
  from Cons.IH[OF r this] show ?case .
qed

lemma collect_match_parallel:
  assumes "collect_match img1 img2 kp1 kp2 acc mm = Inr acc'" and "parallel4 acc"
  shows "parallel4 acc'"
  using assms
  by (auto simp: collect_match_def bindE_def parallel4_def
      split: sum.splits prod.splits if_splits)

text \<open>
  Whenever the matcher returns its four arrays, they are parallel: the two coordinate
  arrays and the two colour arrays have the same number of rows.
\<close>

theorem get_matches_arrays_parallel:
  assumes "snd (get_matches imread detectAndCompute knnMatch path1 path2) = Inr (Some r)"
  shows "parallel4 r"
proof -
  from assms have both: "imread path1 \<noteq> None" "imread path2 \<noteq> None"
    by (auto simp: get_matches_def Let_def split: if_splits)
  obtain kp1 des1 where d1: "detectAndCompute (the (imread path1)) = (kp1, des1)"
    by (cases "detectAndCompute (the (imread path1))") auto
  obtain kp2 des2 where d2: "detectAndCompute (the (imread path2)) = (kp2, des2)"
    by (cases "detectAndCompute (the (imread path2))") auto
  from assms both d1 d2 obtain ms mk where run:
    "foldE (collect_match (the (imread path1)) (the (imread path2)) kp1 kp2)
       (zip ms mk) ([], [], [], []) = Inr r"
    by (auto simp: get_matches_def Let_def bindE_def split: sum.splits)
  show ?thesis
  proof (rule foldE_invariant[where P = parallel4
        and f = "collect_match (the (imread path1)) (the (imread path2)) kp1 kp2"
        and xs = "zip ms mk" and acc = "([], [], [], [])"])
    show "\<And>acc x acc'.
        collect_match (the (imread path1)) (the (imread path2)) kp1 kp2 acc x = Inr acc' \<Longrightarrow>
        parallel4 acc \<Longrightarrow> parallel4 acc'"
      by (rule collect_match_parallel)
    show "foldE (collect_match (the (imread path1)) (the (imread path2)) kp1 kp2)
       (zip ms mk) ([], [], [], []) = Inr r" by (rule run)
    show "parallel4 (([], [], [], []) :: point2 list \<times> point2 list \<times> colour list \<times> colour list)"
      by (simp add: parallel4_def)
  qed
qed

lemma get_matches_example:
  "get_matches imread_without_0001 two_descriptors knnMatch_two
     ''./Assets/0002.jpg'' ''./Assets/0003.jpg'' =
   ([], Inr (Some ([(0.5, 0.25)], [(1.5, 0.75)], [(10, 20, 30)], [(40, 50, 60)])))"
  by (simp add: get_matches_def imread_without_0001_def two_descriptors_def knnMatch_two_def
      bindE_def ratio_test_def collect_match_def item_def pixel_def np_getitem_def py_int_def)

theorem get_matches_arrays_parallel_witness:
  "snd (get_matches imread_without_0001 two_descriptors knnMatch_two
          ''./Assets/0002.jpg'' ''./Assets/0003.jpg'') =
     Inr (Some ([(0.5, 0.25)], [(1.5, 0.75)], [(10, 20, 30)], [(40, 50, 60)])) \<and>
   parallel4 ([(0.5, 0.25) :: point2], [(1.5, 0.75) :: point2],
              [(10, 20, 30) :: colour], [(40, 50, 60) :: colour])"
proof -
  have r: "snd (get_matches imread_without_0001 two_descriptors knnMatch_two
          ''./Assets/0002.jpg'' ''./Assets/0003.jpg'') =
     Inr (Some ([(0.5, 0.25)], [(1.5, 0.75)], [(10, 20, 30)], [(40, 50, 60)]))"
    by (simp add: get_matches_example)
  from get_matches_arrays_parallel[OF r] r show ?thesis by simp
qed

text \<open>
  C5 (as claimed). A frame that cannot be decoded would abort the transition with its
  path identified. The matcher prints the same fixed line, which names no path, whether
  the missing frame is its second or its first argument.
\<close>

theorem get_matches_does_not_name_the_path:
  "get_matches imread_without_0001 detect_nothing knnMatch_nothing
     ''./Assets/0000.jpg'' ''./Assets/0001.jpg'' =
     ([Line ''Error reading images''], Inr None) \<and>
   get_matches imread_without_0001 detect_nothing knnMatch_nothing
     ''./Assets/0001.jpg'' ''./Assets/0002.jpg'' =
     ([Line ''Error reading images''], Inr None)"
  by (simp add: get_matches_def imread_without_0001_def)

text \<open>
  C5 (amended). If one of the two frames of a transition cannot be decoded, the matcher
  prints the fixed line \<^verbatim>\<open>Error reading images\<close> and returns \<^verbatim>\<open>None\<close>; unpacking
  that result raises \<^verbatim>\<open>TypeError\<close>, which ends the pass and the loop with the
  accumulators as they were. If the third frame that a pass reads cannot be decoded,
  the pass and the loop end with an exception as well.
\<close>

theorem missing_frame_ends_the_loop:
  assumes "i + 2 < length image_paths"
  shows "(cv_imread cv (image_paths ! i) = None \<or> cv_imread cv (image_paths ! (i + 1)) = None \<longrightarrow>
           get_matches (cv_imread cv) (cv_detectAndCompute cv) (cv_knnMatch cv)
               (image_paths ! i) (image_paths ! (i + 1)) =
             ([Line ''Error reading images''], Inr None) \<and>
           loop_body cv image_paths K s i =
             (s\<lparr>stdout := stdout s @ [Line ''Error reading images'']\<rparr>, Some TypeError) \<and>
           run_loop cv image_paths K s (i # rest) =
             (s\<lparr>stdout := stdout s @ [Line ''Error reading images'']\<rparr>, Some TypeError)) \<and>
         (cv_imread cv (image_paths ! (i + 2)) = None \<longrightarrow>
           (\<exists>out e. run_loop cv image_paths K s (i # rest) =
                      (s\<lparr>stdout := stdout s @ out\<rparr>, Some e)))"
proof (intro conjI impI)
  assume m: "cv_imread cv (image_paths ! i) = None \<or> cv_imread cv (image_paths ! (i + 1)) = None"
  show "get_matches (cv_imread cv) (cv_detectAndCompute cv) (cv_knnMatch cv)
               (image_paths ! i) (image_paths ! (i + 1)) =
             ([Line ''Error reading images''], Inr None)"
    using m by (rule get_matches_missing)
  have "i + 1 < length image_paths" using assms by simp
  from frame_step_first_pair_missing[OF this m]
  show body: "loop_body cv image_paths K s i =
             (s\<lparr>stdout := stdout s @ [Line ''Error reading images'']\<rparr>, Some TypeError)"
    by (simp add: loop_body_def Let_def)
  show "run_loop cv image_paths K s (i # rest) =
             (s\<lparr>stdout := stdout s @ [Line ''Error reading images'']\<rparr>, Some TypeError)"
    by (simp add: body)
next
  assume m: "cv_imread cv (image_paths ! (i + 2)) = None"
  from frame_step_third_missing[OF assms m, of K "pose_0 s" "pose_1 s"]
  obtain e where "snd (frame_step cv image_paths K (pose_0 s) (pose_1 s) i) = Inl e"
    by (cases "snd (frame_step cv image_paths K (pose_0 s) (pose_1 s) i)") auto
  then have "loop_body cv image_paths K s i =
      (s\<lparr>stdout := stdout s @ fst (frame_step cv image_paths K (pose_0 s) (pose_1 s) i)\<rparr>, Some e)"
    by (simp add: loop_body_def Let_def)
  then show "\<exists>out e. run_loop cv image_paths K s (i # rest) =
                      (s\<lparr>stdout := stdout s @ out\<rparr>, Some e)"
    by auto
qed

theorem missing_frame_ends_the_loop_witness:
  "0 + 2 < length [''./Assets/0000.jpg'', ''./Assets/0001.jpg'', ''./Assets/0002.jpg''] \<and>
   run_loop cv_without_0001
     [''./Assets/0000.jpg'', ''./Assets/0001.jpg'', ''./Assets/0002.jpg'']
     ((1, 0, 0), (0, 1, 0), (0, 0, 1))
     \<lparr>pose_0 = transform_matrix_0, pose_1 = transform_matrix_0, pose_array = [],
      total_points = [], total_colors = [], stdout = []\<rparr> [0] =
     (\<lparr>pose_0 = transform_matrix_0, pose_1 = transform_matrix_0, pose_array = [],
       total_points = [], total_colors = [], stdout = [Line ''Error reading images'']\<rparr>,
      Some TypeError)"
proof -
  let ?paths = "[''./Assets/0000.jpg'', ''./Assets/0001.jpg'', ''./Assets/0002.jpg'']"
  have len: "0 + 2 < length ?paths" by simp
  have miss: "cv_imread cv_without_0001 (?paths ! 0) = None \<or>
              cv_imread cv_without_0001 (?paths ! (0 + 1)) = None"
    by (simp add: cv_without_0001_def imread_without_0001_def)
  let ?s = "\<lparr>pose_0 = transform_matrix_0, pose_1 = transform_matrix_0, pose_array = [],
      total_points = [], total_colors = [], stdout = []\<rparr>"
  from missing_frame_ends_the_loop[OF len, where cv = cv_without_0001
      and K = "((1, 0, 0), (0, 1, 0), (0, 0, 1))" and s = ?s and rest = "[]"] miss
  have "run_loop cv_without_0001 ?paths ((1, 0, 0), (0, 1, 0), (0, 0, 1)) ?s [0] =
          (?s\<lparr>stdout := stdout ?s @ [Line ''Error reading images'']\<rparr>, Some TypeError)"
    by blast
  then show ?thesis by simp
qed

section \<open>Properties of the two-view initialisation\<close>












section \<open>Properties of the control loop\<close>

lemma loop_body_extends:
  "\<exists>ps qs cs out.
     total_points (fst (loop_body cv image_paths K s i)) = total_points s @ ps \<and>
     pose_array (fst (loop_body cv image_paths K s i)) = pose_array s @ qs \<and>
     total_colors (fst (loop_body cv image_paths K s i)) = total_colors s @ cs \<and>
     stdout (fst (loop_body cv image_paths K s i)) = stdout s @ out"
  by (simp add: loop_body_def Let_def split: sum.splits prod.splits)

lemma run_loop_extends:
  "\<exists>ps qs cs out.
     total_points (fst (run_loop cv image_paths K s passes)) = total_points s @ ps \<and>
     pose_array (fst (run_loop cv image_paths K s passes)) = pose_array s @ qs \<and>
     total_colors (fst (run_loop cv image_paths K s passes)) = total_colors s @ cs \<and>
     stdout (fst (run_loop cv image_paths K s passes)) = stdout s @ out"
proof (induction passes arbitrary: s)
  case Nil
  show ?case by simp
next
  case (Cons i rest)
  obtain s' r where body: "loop_body cv image_paths K s i = (s', r)"
    by (cases "loop_body cv image_paths K s i") auto
  from loop_body_extends[of cv image_paths K s i] body
  obtain ps qs cs out where one:
    "total_points s' = total_points s @ ps" "pose_array s' = pose_array s @ qs"
    "total_colors s' = total_colors s @ cs" "stdout s' = stdout s @ out"
    by auto
  show ?case
  proof (cases r)
    case (Some e)
    with body one show ?thesis by simp
  next
    case None
    from Cons.IH[of s'] obtain ps' qs' cs' out' where
      "total_points (fst (run_loop cv image_paths K s' rest)) = total_points s' @ ps'"
      "pose_array (fst (run_loop cv image_paths K s' rest)) = pose_array s' @ qs'"
      "total_colors (fst (run_loop cv image_paths K s' rest)) = total_colors s' @ cs'"
      "stdout (fst (run_loop cv image_paths K s' rest)) = stdout s' @ out'"
      by blast
    with None body one show ?thesis by simp
  qed
qed

lemma run_loop_append:
  "run_loop cv image_paths K s (earlier @ later) =
     (case run_loop cv image_paths K s earlier of
        (s', Some e) \<Rightarrow> (s', Some e)
      | (s', None) \<Rightarrow> run_loop cv image_paths K s' later)"
  by (induction earlier arbitrary: s) (auto split: prod.splits option.splits)

text \<open>
  C9. Whatever the passes do and however they end, the accumulated points and the pose
  history after further passes are those after the earlier passes followed by what the
  further passes appended: nothing is removed or rolled back, and neither the point
  count nor the length of the pose history decreases.
\<close>

theorem accumulators_only_grow:
  "\<exists>ps qs.
     total_points (fst (run_loop cv image_paths K s (earlier @ later))) =
       total_points (fst (run_loop cv image_paths K s earlier)) @ ps \<and>
     pose_array (fst (run_loop cv image_paths K s (earlier @ later))) =
       pose_array (fst (run_loop cv image_paths K s earlier)) @ qs \<and>
     length (total_points (fst (run_loop cv image_paths K s earlier)))
       \<le> length (total_points (fst (run_loop cv image_paths K s (earlier @ later)))) \<and>
     length (pose_array (fst (run_loop cv image_paths K s earlier)))
       \<le> length (pose_array (fst (run_loop cv image_paths K s (earlier @ later))))"
proof -
  obtain s' r where b: "run_loop cv image_paths K s earlier = (s', r)"
    by (cases "run_loop cv image_paths K s earlier") auto
  show ?thesis
  proof (cases r)
    case (Some e)
    with b show ?thesis by (simp add: run_loop_append)
  next
    case None
    from run_loop_extends[of cv image_paths K s' later] obtain ps qs where
      "total_points (fst (run_loop cv image_paths K s' later)) = total_points s' @ ps"
      "pose_array (fst (run_loop cv image_paths K s' later)) = pose_array s' @ qs"
      by blast
    with None b show ?thesis by (simp add: run_loop_append)
  qed
qed

section \<open>Properties of the exporter\<close>

lemma py_int_of_int: "py_int (real_of_int v) = v"
  by (simp add: py_int_def)

lemma out_color_mod: "out_color c = (255 * c) mod 256"
  by (simp add: out_color_def astype_uint8_def mult.commute)

lemma out_color_range: "0 < c \<Longrightarrow> c \<le> 255 \<Longrightarrow> out_color c = 256 - c"
proof -
  assume a: "0 < c" "c \<le> 255"
  have "(255 * c) mod 256 = (256 * c - c) mod 256" by (simp add: algebra_simps)
  also have "\<dots> = (- c) mod 256"
    by (metis (no_types) diff_conv_add_uminus mod_mult_self4 mult.commute add.commute)
  also have "\<dots> = 256 - c" using a
    by (simp add: zmod_zminus1_eq_if)
  finally show ?thesis by (simp add: out_color_mod)
qed

lemma wrapped_byte:
  fixes c :: int
  assumes "0 \<le> c" "c \<le> 255"
  shows "(255 * c) mod 256 = (if c = 0 then 0 else 256 - c)"
proof (cases "c = 0")
  case True
  then show ?thesis by simp
next
  case False
  with assms have "0 < c" by simp
  from out_color_range[OF this assms(2)] False show ?thesis
    by (simp add: out_color_mod)
qed

lemma digit_char_inj: "d < 10 \<Longrightarrow> of_char (digit_char d) = (48 + d :: nat)"
  by (simp add: digit_char_def)

lemma is_digit_digit_char: "d < 10 \<Longrightarrow> is_digit (digit_char d)"
  by (simp add: is_digit_def digit_char_def)

lemma show_nat_digits: "list_all is_digit (show_nat n)"
proof (induction n rule: show_nat.induct)
  case (1 n)
  show ?case
  proof (cases "n < 10")
    case True
    then show ?thesis by (subst show_nat.simps) (simp add: is_digit_digit_char)
  next
    case False
    with 1 show ?thesis by (subst show_nat.simps) (simp add: is_digit_digit_char)
  qed
qed

lemma read_nat_snoc: "read_nat (ds @ [c]) = 10 * read_nat ds + (of_char c - 48)"
  by (simp add: read_nat_def)

lemma read_show_nat: "read_nat (show_nat n) = n"
proof (induction n rule: show_nat.induct)
  case (1 n)
  show ?case
  proof (cases "n < 10")
    case True
    then show ?thesis
      by (subst show_nat.simps) (simp add: read_nat_def digit_char_def)
  next
    case False
    with 1 have "read_nat (show_nat (n div 10)) = n div 10" by simp
    with False show ?thesis
      by (subst show_nat.simps) (simp add: read_nat_snoc digit_char_def)
  qed
qed

lemma declared_vertex_count_header: "declared_vertex_count (ply_header n) = n"
proof -
  have "takeWhile is_digit header_after_count = []"
    by (simp add: header_after_count_def is_digit_def)
  then have "takeWhile is_digit (show_nat n @ header_after_count) = show_nat n"
    using show_nat_digits[of n] by (simp add: takeWhile_append2 list_all_iff)
  then show ?thesis
    by (simp add: declared_vertex_count_def ply_header_def read_show_nat)
qed

lemma length_ply_verts:
  "length point_cloud = length colors \<Longrightarrow>
     length (ply_verts arith point_cloud colors) = length colors"
  by (simp add: ply_verts_def)

lemma ply_verts_nth:
  assumes "length point_cloud = length colors" "i < length colors" "colors ! i = (r, g, b)"
  shows "ply_verts arith point_cloud colors ! i =
           (out_point arith (point_cloud ! i), real_of_int (out_color r),
            real_of_int (out_color g), real_of_int (out_color b))"
  using assms by (simp add: ply_verts_def)

lemma to_ply_unfold:
  assumes "length point_cloud = length colors"
  shows "to_ply arith path point_cloud colors =
           Inr \<lparr>file_name = path_join (path_join path ''res'') ''point_cloud.ply'',
                header = ply_header
                  (length (ply_indx arith (ply_dist arith (ply_verts arith point_cloud colors)))),
                data_lines = map (\<lambda>i. savetxt_line (ply_verts arith point_cloud colors ! i))
                  (ply_indx arith (ply_dist arith (ply_verts arith point_cloud colors)))\<rparr>"
  using assms
  by (simp add: to_ply_def hstack_verts_def bindE_def Let_def ply_verts_def comp_def)

lemma to_ply_mismatch:
  "length point_cloud \<noteq> length colors \<Longrightarrow> to_ply arith path point_cloud colors = Inl ValueError"
  by (simp add: to_ply_def hstack_verts_def bindE_def Let_def)

lemma to_ply_Inr_lengths:
  "to_ply arith path point_cloud colors = Inr f \<Longrightarrow> length point_cloud = length colors"
  using to_ply_mismatch[of point_cloud colors arith path]
  by (cases "length point_cloud = length colors") auto

lemma length_ply_dist: "length (ply_dist arith verts) = length verts"
  by (simp add: ply_dist_def Let_def)

lemma ply_indx_bound: "i \<in> set (ply_indx arith d) \<Longrightarrow> i < length d"
  by (simp add: ply_indx_def)

lemma sqrt_360000: "sqrt 360000 = 600"
  using real_sqrt_abs[of 600] by simp

lemma sqrt_1000000: "sqrt 1000000 = 1000"
  using real_sqrt_abs[of 1000] by simp

lemma sqrt_9000000: "sqrt 9000000 = 3000"
  using real_sqrt_abs[of 3000] by simp

lemma ply_verts_threshold_cloud:
  "ply_verts exact_arith [(3, 0, 0), (- 3, 0, 0), (0, 0, 0), (0, 0, 0)]
             [(1, 1, 1), (2, 2, 2), (3, 3, 3), (4, 4, 4)] =
     [((600, 0, 0), 255, 255, 255), ((- 600, 0, 0), 254, 254, 254),
      ((0, 0, 0), 253, 253, 253), ((0, 0, 0), 252, 252, 252)]"
  by (simp add: ply_verts_def out_point_def out_color_def astype_uint8_def exact_arith_def)

lemma ply_dist_threshold_cloud:
  "ply_dist exact_arith
     [((600, 0, 0), 255, 255, 255), ((- 600, 0, 0), 254, 254, 254),
      ((0, 0, 0), 253, 253, 253), ((0, 0, 0), 252, 252, 252)] = [600, 600, 0, 0]"
  by (simp add: ply_dist_def exact_arith_def exact_mean_axis0_def exact_mean_def sqrt_360000)

lemma threshold_threshold_cloud:
  "fl_add exact_arith (fl_mean exact_arith [600, 600, 0, 0]) 300 = 600"
  by (simp add: exact_arith_def exact_mean_def)

lemma ply_indx_threshold_cloud: "ply_indx exact_arith [600, 600, 0, 0] = [2, 3]"
  by (simp add: ply_indx_def threshold_threshold_cloud upt_rec nth_Cons')

lemma ply_verts_outlier_cloud:
  "ply_verts exact_arith [(1, 2, 2), (1, 2, 2), (1, 2, 2), (21, 2, 2)]
             [(0, 0, 0), (1, 1, 1), (255, 255, 255), (128, 128, 128)] =
     [((200, 400, 400), 0, 0, 0), ((200, 400, 400), 255, 255, 255),
      ((200, 400, 400), 1, 1, 1), ((4200, 400, 400), 128, 128, 128)]"
  by (simp add: ply_verts_def out_point_def out_color_def astype_uint8_def exact_arith_def)

lemma ply_dist_outlier_cloud:
  "ply_dist exact_arith
     [((200, 400, 400), 0, 0, 0), ((200, 400, 400), 255, 255, 255),
      ((200, 400, 400), 1, 1, 1), ((4200, 400, 400), 128, 128, 128)] =
     [1000, 1000, 1000, 3000]"
  by (simp add: ply_dist_def exact_arith_def exact_mean_axis0_def exact_mean_def
      sqrt_1000000 sqrt_9000000)

lemma threshold_outlier_cloud:
  "fl_add exact_arith (fl_mean exact_arith [1000, 1000, 1000, 3000]) 300 = 1800"
  by (simp add: exact_arith_def exact_mean_def)

lemma ply_verts_single:
  "ply_verts exact_arith [(1, 2, 3)] [(10, 20, 30)] = [((200, 400, 600), 246, 236, 226)]"
  by (simp add: ply_verts_def out_point_def out_color_def astype_uint8_def exact_arith_def)

lemma ply_dist_single: "ply_dist exact_arith [((200, 400, 600), 246, 236, 226)] = [0]"
  by (simp add: ply_dist_def exact_arith_def exact_mean_axis0_def exact_mean_def)

lemma ply_indx_single: "ply_indx exact_arith [0] = [0]"
  by (simp add: ply_indx_def exact_arith_def exact_mean_def)

lemma to_ply_single:
  "to_ply exact_arith ''out'' [(1, 2, 3)] [(10, 20, 30)] =
     Inr \<lparr>file_name = ''out/res/point_cloud.ply'', header = ply_header 1,
          data_lines = [Vertex 200 400 600 246 236 226]\<rparr>"
  by (simp add: to_ply_unfold ply_verts_single ply_dist_single ply_indx_single
      savetxt_line_def py_int_def path_join_def)

text \<open>
  C7 (as claimed). A point would be discarded exactly when its distance from the centroid
  exceeds the mean distance plus 300. In the cloud of the scaled points
  \<open>(600, 0, 0)\<close>, \<open>(-600, 0, 0)\<close> and twice the origin, every number the exporter
  computes is a small integer, so that no operation rounds: the mean distance is 300
  and the first two points lie at distance 600, which does not exceed the threshold
  600; the exporter discards them all the same and writes the two points at the
  origin.
\<close>

theorem to_ply_discards_point_at_threshold:
  "ply_dist exact_arith
     (ply_verts exact_arith [(3, 0, 0), (- 3, 0, 0), (0, 0, 0), (0, 0, 0)]
                            [(1, 1, 1), (2, 2, 2), (3, 3, 3), (4, 4, 4)]) = [600, 600, 0, 0] \<and>
   fl_add exact_arith (fl_mean exact_arith [600, 600, 0, 0]) 300 = 600 \<and>
   to_ply exact_arith ''./Assets'' [(3, 0, 0), (- 3, 0, 0), (0, 0, 0), (0, 0, 0)]
                                   [(1, 1, 1), (2, 2, 2), (3, 3, 3), (4, 4, 4)] =
     Inr \<lparr>file_name = ''./Assets/res/point_cloud.ply'', header = ply_header 2,
          data_lines = [Vertex 0 0 0 253 253 253, Vertex 0 0 0 252 252 252]\<rparr>"
proof -
  have "to_ply exact_arith ''./Assets'' [(3, 0, 0), (- 3, 0, 0), (0, 0, 0), (0, 0, 0)]
                       [(1, 1, 1), (2, 2, 2), (3, 3, 3), (4, 4, 4)] =
     Inr \<lparr>file_name = ''./Assets/res/point_cloud.ply'', header = ply_header 2,
          data_lines = [Vertex 0 0 0 253 253 253, Vertex 0 0 0 252 252 252]\<rparr>"
    by (simp add: to_ply_unfold ply_verts_threshold_cloud ply_dist_threshold_cloud
        ply_indx_threshold_cloud savetxt_line_def py_int_def path_join_def numeral_2_eq_2)
  then show ?thesis
    by (simp add: ply_verts_threshold_cloud ply_dist_threshold_cloud threshold_threshold_cloud)
qed

text \<open>
  C7 (amended). For a cloud and a colour array of the same length, and whatever the
  rounding of the floating-point operations, the exporter writes exactly the rows whose
  computed distance from the computed centroid of the scaled points is strictly less
  than the computed threshold, the floating-point sum of \<^verbatim>\<open>np.mean(dist)\<close> and 300, in
  their order. A row whose computed distance equals the computed threshold is
  discarded. The comparison is between the computed floats, not between the exact
  distances and the exact mean.
\<close>

theorem to_ply_keeps_strictly_closer:
  assumes "length point_cloud = length colors"
  shows "\<exists>f. to_ply arith path point_cloud colors = Inr f \<and>
           data_lines f =
             map (\<lambda>i. savetxt_line (ply_verts arith point_cloud colors ! i))
               (filter (\<lambda>i. ply_dist arith (ply_verts arith point_cloud colors) ! i
                             < fl_add arith
                                 (fl_mean arith (ply_dist arith (ply_verts arith point_cloud colors)))
                                 300)
                       [0..<length point_cloud])"
  using assms
  by (simp add: to_ply_unfold ply_indx_def length_ply_dist length_ply_verts)

text \<open>
  A cloud with an outlier, on which again no operation rounds. The scaled points are
  three times \<open>(200, 400, 400)\<close> and once \<open>(4200, 400, 400)\<close>, their centroid is
  \<open>(1200, 400, 400)\<close>, the distances are 1000, 1000, 1000 and 3000, and the threshold is
  1800: the first three rows are written and the fourth is discarded.
\<close>

theorem to_ply_keeps_strictly_closer_witness:
  "length [(1, 2, 2), (1, 2, 2), (1, 2, 2), (21, 2, 2) :: vec3] =
     length [(0, 0, 0), (1, 1, 1), (255, 255, 255), (128, 128, 128) :: colour] \<and>
   ply_dist exact_arith
     (ply_verts exact_arith [(1, 2, 2), (1, 2, 2), (1, 2, 2), (21, 2, 2)]
        [(0, 0, 0), (1, 1, 1), (255, 255, 255), (128, 128, 128)]) = [1000, 1000, 1000, 3000] \<and>
   fl_add exact_arith (fl_mean exact_arith [1000, 1000, 1000, 3000]) 300 = 1800 \<and>
   (\<exists>f. to_ply exact_arith ''out'' [(1, 2, 2), (1, 2, 2), (1, 2, 2), (21, 2, 2)]
          [(0, 0, 0), (1, 1, 1), (255, 255, 255), (128, 128, 128)] = Inr f \<and>
        data_lines f =
          [Vertex 200 400 400 0 0 0, Vertex 200 400 400 255 255 255, Vertex 200 400 400 1 1 1])"
proof -
  let ?cloud = "[(1, 2, 2), (1, 2, 2), (1, 2, 2), (21, 2, 2)] :: vec3 list"
  let ?colors = "[(0, 0, 0), (1, 1, 1), (255, 255, 255), (128, 128, 128)] :: colour list"
  have len: "length ?cloud = length ?colors" by simp
  from to_ply_keeps_strictly_closer[OF len, of exact_arith "''out''"]
  obtain f where f: "to_ply exact_arith ''out'' ?cloud ?colors = Inr f"
    and d: "data_lines f =
             map (\<lambda>i. savetxt_line (ply_verts exact_arith ?cloud ?colors ! i))
               (filter (\<lambda>i. ply_dist exact_arith (ply_verts exact_arith ?cloud ?colors) ! i
                             < fl_add exact_arith
                                 (fl_mean exact_arith
                                    (ply_dist exact_arith (ply_verts exact_arith ?cloud ?colors)))
                                 300)
                       [0..<length ?cloud])"
    by blast
  have "data_lines f =
          [Vertex 200 400 400 0 0 0, Vertex 200 400 400 255 255 255, Vertex 200 400 400 1 1 1]"
    unfolding d ply_verts_outlier_cloud ply_dist_outlier_cloud threshold_outlier_cloud
    by (simp add: upt_rec nth_Cons' savetxt_line_def py_int_def)
  with f show ?thesis
    by (simp add: ply_verts_outlier_cloud ply_dist_outlier_cloud threshold_outlier_cloud)
qed

text \<open>
  C8. For a cloud and a colour array of the same length, the exporter writes a file
  whose header declares as vertex count the number of data lines that follow it.
\<close>

theorem to_ply_declares_written_count:
  assumes "length point_cloud = length colors"
  shows "\<exists>f. to_ply arith path point_cloud colors = Inr f \<and>
             declared_vertex_count (header f) = length (data_lines f)"
  using assms by (simp add: to_ply_unfold declared_vertex_count_header)

theorem to_ply_declares_written_count_witness:
  "length [(1, 2, 3) :: vec3] = length [(10, 20, 30) :: colour] \<and>
   (\<exists>f. to_ply exact_arith ''out'' [(1, 2, 3)] [(10, 20, 30)] = Inr f \<and>
        declared_vertex_count (header f) = length (data_lines f) \<and>
        length (data_lines f) = 1)"
proof -
  have len: "length [(1, 2, 3) :: vec3] = length [(10, 20, 30) :: colour]" by simp
  from to_ply_declares_written_count[OF len, of exact_arith "''out''"]
  show ?thesis by (auto simp: to_ply_single)
qed

text \<open>
  C10. Every data line that the exporter writes belongs to a point of the cloud, and its
  three colour bytes are \<open>(255 c) mod 256\<close> for the three accumulated channel values
  \<open>c\<close> of that point: \<open>256 - c\<close> for a channel between 1 and 255, and 0 for 0.
\<close>

theorem exported_colour_is_wrapped:
  assumes ok: "to_ply arith path point_cloud colors = Inr f" and k: "k < length (data_lines f)"
  shows "\<exists>i r g b x y z. i < length colors \<and> colors ! i = (r, g, b) \<and>
           out_point arith (point_cloud ! i) = (x, y, z) \<and>
           data_lines f ! k =
             Vertex x y z ((255 * r) mod 256) ((255 * g) mod 256) ((255 * b) mod 256) \<and>
           (0 \<le> r \<and> r \<le> 255 \<longrightarrow> (255 * r) mod 256 = (if r = 0 then 0 else 256 - r)) \<and>
           (0 \<le> g \<and> g \<le> 255 \<longrightarrow> (255 * g) mod 256 = (if g = 0 then 0 else 256 - g)) \<and>
           (0 \<le> b \<and> b \<le> 255 \<longrightarrow> (255 * b) mod 256 = (if b = 0 then 0 else 256 - b))"
proof -
  have len: "length point_cloud = length colors" using ok by (rule to_ply_Inr_lengths)
  let ?verts = "ply_verts arith point_cloud colors"
  let ?indx = "ply_indx arith (ply_dist arith ?verts)"
  have f: "data_lines f = map (\<lambda>i. savetxt_line (?verts ! i)) ?indx"
    using ok to_ply_unfold[OF len, of arith path] by auto
  have k': "k < length ?indx" using k f by simp
  define i where "i = ?indx ! k"
  have "i \<in> set ?indx" using k' by (simp add: i_def)
  then have i: "i < length colors"
    using ply_indx_bound[of i arith "ply_dist arith ?verts"]
    by (simp add: length_ply_dist length_ply_verts len)
  obtain r g b where c: "colors ! i = (r, g, b)" by (cases "colors ! i") auto
  obtain x y z where p: "out_point arith (point_cloud ! i) = (x, y, z)"
    by (cases "out_point arith (point_cloud ! i)") auto
  have "data_lines f ! k = savetxt_line (?verts ! i)" using f k' by (simp add: i_def)
  also have "\<dots> = Vertex x y z (out_color r) (out_color g) (out_color b)"
    by (simp add: ply_verts_nth[OF len i c] p savetxt_line_def py_int_of_int)
  finally have "data_lines f ! k =
      Vertex x y z ((255 * r) mod 256) ((255 * g) mod 256) ((255 * b) mod 256)"
    by (simp add: out_color_mod)
  moreover have "\<And>c::int. 0 \<le> c \<and> c \<le> 255 \<longrightarrow>
      (255 * c) mod 256 = (if c = 0 then 0 else 256 - c)"
    using wrapped_byte by simp
  ultimately show ?thesis using i c p by blast
qed

theorem exported_colour_is_wrapped_witness:
  "to_ply exact_arith ''out'' [(1, 2, 3)] [(10, 20, 30)] =
     Inr \<lparr>file_name = ''out/res/point_cloud.ply'', header = ply_header 1,
          data_lines = [Vertex 200 400 600 246 236 226]\<rparr> \<and>
   (\<exists>i r g b. i < length [(10, 20, 30) :: colour] \<and> [(10, 20, 30)] ! i = (r, g, b) \<and>
      [Vertex 200 400 600 246 236 226] ! 0 =
        Vertex 200 400 600 ((255 * r) mod 256) ((255 * g) mod 256) ((255 * b) mod 256))"
proof -
  let ?f = "\<lparr>file_name = ''out/res/point_cloud.ply'', header = ply_header 1,
          data_lines = [Vertex 200 400 600 246 236 226]\<rparr>"
  have k: "0 < length (data_lines ?f)" by simp
  from exported_colour_is_wrapped[OF to_ply_single k]
  obtain i r g b x y z where
    "i < length [(10, 20, 30) :: colour]" "[(10, 20, 30)] ! i = (r, g, b)"
    "data_lines ?f ! 0 = Vertex x y z ((255 * r) mod 256) ((255 * g) mod 256) ((255 * b) mod 256)"
    by blast
  then show ?thesis using to_ply_single by auto
qed

end
